theory Spec2Isabelle
  imports Main
begin

section \<open>Data model\<close>

text \<open>
  Both scripts keep the fetched posts as plain Python values (lists, dicts, strings,
  integers) and store them with \<^verbatim>\<open>json.dump\<close>; what \<^verbatim>\<open>json.load\<close> gives back is
  again such a value. The datatype below is that universe of values. An object is an
  association list in insertion order; a lookup takes the first binding of a key.
  Floating-point numbers do not occur in the posts and are left out.
\<close>

datatype json =
    JNull
  | JBool bool
  | JInt int
  | JStr string
  | JList "json list"
  | JObj "(string \<times> json) list"

text \<open>
  The exceptions the scripts can meet. Every handler is \<^verbatim>\<open>except Exception\<close>.
  \<open>MarkupError\<close> is what the console raises when a text it is asked to print as markup
  holds a closing tag that matches no open tag.
\<close>

datatype exn =
    JSONDecodeError
  | KeyError string
  | IndexError
  | TypeError
  | ValueError
  | OSError
  | FileNotFoundError
  | AttributeError
  | TweepyException
  | RequestException
  | GenerationError
  | MarkupError

text \<open>
  A datetime as \<^verbatim>\<open>datetime.fromisoformat\<close> returns it: naive, or aware of a UTC offset.
  \<^verbatim>\<open>datetime.now()\<close> is naive, and subtracting an aware datetime from it raises
  \<^verbatim>\<open>TypeError\<close>. Times are counted in microseconds.
\<close>

datatype datetime =
    Naive int
  | Aware int

text \<open>
  A file holds either the complete text that \<^verbatim>\<open>json.dump\<close> wrote for a value, or the
  bytes of a downloaded media item, or what is left when a write stopped partway
  (\<open>Partial\<close>): \<^verbatim>\<open>open(path, 'w')\<close> has emptied the file and only a proper prefix of the
  text reached it. The text of a snapshot starts with an opening brace and ends with the
  closing one, so a proper prefix is never a JSON document and \<^verbatim>\<open>json.load\<close> rejects
  it. \<open>Partial\<close> also stands for any other text that is not JSON.
\<close>

datatype file_content =
    JsonText json
  | Bytes string
  | Partial

text \<open>What the operating system does when a path is opened for writing and written.\<close>

datatype write_outcome =
    WriteOk
  | OpenFails exn
  | WriteFails exn

record api_media =
  media_key :: string
  url :: "string option"
  preview_image_url :: "string option"

record api_tweet =
  tweet_id :: int
  tweet_text :: string
  created_at :: int
  public_metrics :: json
  attachments :: "(string \<times> string list) list option"

record tweets_response =
  data :: "api_tweet list option"
  includes_media :: "api_media list option"

record http_response =
  status_code :: int
  content :: string
  response_text :: string
  json_body :: "json option"

record chat_request =
  headers :: "(string \<times> string) list"
  model :: string
  messages :: "(string \<times> string) list"
  temperature :: string
  max_tokens :: int

datatype gemini_payload =
    Prompt_only string
  | Prompt_with_images string "file_content list"

datatype net_call =
    Get_user string
  | Get_users_tweets int
  | Requests_get string
  | Requests_post chat_request
  | Generate_content gemini_payload

text \<open>
  One constructor for each message the scripts print, with the values it shows. The
  lines that show nothing from outside the program are \<open>Using_cached_tweets\<close> (digits
  of a date), \<open>User_not_found\<close>, \<open>No_tweets_loaded\<close>, \<open>No_user_selected\<close> and
  \<open>Analysis_panel\<close> (rendered as Markdown inside a panel, not as markup). Every other
  line puts an exception message, a response body, a path or a username between markup
  tags.
\<close>

datatype console_line =
    Using_cached_tweets datetime
  | Warning_load_cache exn
  | Warning_save_cache exn
  | Warning_download_media exn
  | Warning_load_image json exn
  | User_not_found
  | Error_line exn
  | Error_during_analysis exn
  | Error_status int string
  | No_tweets_loaded
  | Analysis_panel string
  | Cache_cleared string
  | Error_clearing_cache exn
  | No_user_selected
  | Refreshing_tweets string

text \<open>
  The environment of one call: the clock readings (\<^verbatim>\<open>datetime.now()\<close> as read by
  \<open>load\<close> and by \<open>save\<close>), the library functions whose text format is not modelled
  (\<^verbatim>\<open>isoformat\<close>, \<^verbatim>\<open>fromisoformat\<close> with \<open>None\<close> for a \<^verbatim>\<open>ValueError\<close>,
  \<^verbatim>\<open>str\<close> inside an f-string, \<^verbatim>\<open>json.dumps\<close> with an indent of 2,
  \<^verbatim>\<open>PIL.Image.open\<close> with the exception it raises, if any), and the answers of the
  remote services, of the operating system and of the console. \<open>markup_error\<close> is the
  exception that \<^verbatim>\<open>console.print\<close> raises on a line, if any: it depends on the text
  that the line shows. \<open>write_result\<close> is what happens to the n-th file that the call
  opens for writing, so two writes to one path can end differently. The second layer of
  \<open>generate_content\<close> is \<^verbatim>\<open>response.text\<close>, which can raise on its own.
\<close>

record env =
  now_load :: int
  now_save :: int
  isoformat :: "int \<Rightarrow> string"
  fromisoformat :: "string \<Rightarrow> datetime option"
  py_str :: "json \<Rightarrow> string"
  json_dumps :: "json \<Rightarrow> string"
  image_open :: "file_content \<Rightarrow> exn option"
  markup_error :: "console_line \<Rightarrow> exn option"
  get_user :: "string \<Rightarrow> exn + int option"
  get_users_tweets :: "int \<Rightarrow> exn + tweets_response"
  requests_get :: "string \<Rightarrow> exn + http_response"
  requests_post :: "chat_request \<Rightarrow> exn + http_response"
  generate_content :: "gemini_payload \<Rightarrow> exn + (exn + string)"
  write_result :: "nat \<Rightarrow> string \<Rightarrow> write_outcome"
  unlink_result :: "string \<Rightarrow> exn option"

text \<open>
  The analyser object together with the world it acts on: the fields \<^verbatim>\<open>self.tweets\<close>,
  \<^verbatim>\<open>self.username\<close> and \<^verbatim>\<open>self.openrouter_key\<close>, the files under the cache
  directory, the number of files opened for writing so far, what was printed, and the
  calls made over the network.
\<close>

record analyser =
  tweets :: json
  username :: "string option"
  openrouter_key :: string
  files :: "string \<rightharpoonup> file_content"
  writes :: nat
  console :: "console_line list"
  net :: "net_call list"

section \<open>Python primitives\<close>

definition timedelta_hours_24 :: int where
  "timedelta_hours_24 = 24 * 3600 * 1000000"

fun truthy :: "json \<Rightarrow> bool" where
  "truthy JNull = False"
| "truthy (JBool b) = b"
| "truthy (JInt i) = (i \<noteq> 0)"
| "truthy (JStr s) = (s \<noteq> [])"
| "truthy (JList xs) = (xs \<noteq> [])"
| "truthy (JObj kvs) = (kvs \<noteq> [])"

text \<open>\<^verbatim>\<open>v[k]\<close> for a string key.\<close>

fun subscript :: "json \<Rightarrow> string \<Rightarrow> exn + json" where
  "subscript (JObj kvs) k = (case map_of kvs k of None \<Rightarrow> Inl (KeyError k) | Some v \<Rightarrow> Inr v)"
| "subscript v k = Inl TypeError"

text \<open>\<^verbatim>\<open>v[0]\<close>.\<close>

fun subscript0 :: "json \<Rightarrow> exn + json" where
  "subscript0 (JList xs) = (case xs of [] \<Rightarrow> Inl IndexError | x # _ \<Rightarrow> Inr x)"
| "subscript0 (JStr s) = (case s of [] \<Rightarrow> Inl IndexError | c # _ \<Rightarrow> Inr (JStr [c]))"
| "subscript0 (JObj kvs) = Inl (KeyError ''0'')"
| "subscript0 v = Inl TypeError"

text \<open>The items a \<^verbatim>\<open>for\<close> loop runs over.\<close>

fun py_iter :: "json \<Rightarrow> exn + json list" where
  "py_iter (JList xs) = Inr xs"
| "py_iter (JObj kvs) = Inr (map (\<lambda>kv. JStr (fst kv)) kvs)"
| "py_iter (JStr s) = Inr (map (\<lambda>c. JStr [c]) s)"
| "py_iter v = Inl TypeError"

fun list_append :: "json \<Rightarrow> json \<Rightarrow> json" where
  "list_append (JList xs) x = JList (xs @ [x])"
| "list_append v x = v"

definition digit_char :: "nat \<Rightarrow> char" where
  "digit_char n = ''0123456789'' ! n"

fun str_nat :: "nat \<Rightarrow> string" where
  "str_nat n = (if n < 10 then [digit_char n] else str_nat (n div 10) @ [digit_char (n mod 10)])"

declare str_nat.simps [simp del]

definition str_int :: "int \<Rightarrow> string" where
  "str_int i = (if i < 0 then CHR ''-'' # str_nat (nat (- i)) else str_nat (nat i))"

definition str_username :: "string option \<Rightarrow> string" where
  "str_username u = (case u of None \<Rightarrow> ''None'' | Some n \<Rightarrow> n)"

definition json_load :: "file_content \<Rightarrow> exn + json" where
  "json_load c = (case c of JsonText v \<Rightarrow> Inr v | Bytes b \<Rightarrow> Inl JSONDecodeError | Partial \<Rightarrow> Inl JSONDecodeError)"

text \<open>\<^verbatim>\<open>datetime.fromisoformat(v)\<close>.\<close>

definition parse_time :: "env \<Rightarrow> json \<Rightarrow> exn + datetime" where
  "parse_time e v =
     (case v of
        JStr s \<Rightarrow> (case fromisoformat e s of None \<Rightarrow> Inl ValueError | Some t \<Rightarrow> Inr t)
      | _ \<Rightarrow> Inl TypeError)"

text \<open>\<^verbatim>\<open>now - cache_time\<close> for a naive \<open>now\<close>.\<close>

definition time_since :: "int \<Rightarrow> datetime \<Rightarrow> exn + int" where
  "time_since now cache_time =
     (case cache_time of Naive t \<Rightarrow> Inr (now - t) | Aware t \<Rightarrow> Inl TypeError)"

definition cache_dir :: string where
  "cache_dir = ''cache''"

definition media_dir :: string where
  "media_dir = cache_dir @ ''/media''"

definition cache_file :: "string \<Rightarrow> string" where
  "cache_file u = cache_dir @ ''/'' @ u @ ''_tweets.json''"

definition media_file :: "int \<Rightarrow> string" where
  "media_file tid = media_dir @ ''/'' @ str_int tid @ ''.jpg''"

text \<open>A line that cannot fail to print, and a call over the network.\<close>

definition say :: "console_line \<Rightarrow> analyser \<Rightarrow> analyser" where
  "say l s = s\<lparr>console := console s @ [l]\<rparr>"

definition call :: "net_call \<Rightarrow> analyser \<Rightarrow> analyser" where
  "call c s = s\<lparr>net := net s @ [c]\<rparr>"

text \<open>
  \<^verbatim>\<open>console.print\<close> of a line that shows text from outside: the line appears, or the
  console raises and nothing appears.
\<close>

definition console_print :: "env \<Rightarrow> console_line \<Rightarrow> analyser \<Rightarrow> exn option \<times> analyser" where
  "console_print e l s =
     (case markup_error e l of None \<Rightarrow> (None, say l s) | Some x \<Rightarrow> (Some x, s))"

text \<open>
  A handler that prints a line and goes on to the value \<open>v\<close>: an exception of the print
  leaves the handler.
\<close>

definition print_then :: "env \<Rightarrow> console_line \<Rightarrow> 'a \<Rightarrow> analyser \<Rightarrow> (exn + 'a) \<times> analyser" where
  "print_then e l v s =
     (case console_print e l s of (None, s1) \<Rightarrow> (Inr v, s1) | (Some x, s1) \<Rightarrow> (Inl x, s1))"

text \<open>
  Opening a path with mode \<^verbatim>\<open>'w'\<close> and writing \<open>c\<close> to it. The outcome is the one of
  the n-th write of the call.
\<close>

definition write_file :: "env \<Rightarrow> string \<Rightarrow> file_content \<Rightarrow> analyser \<Rightarrow> exn option \<times> analyser" where
  "write_file e p c s =
     (let s1 = s\<lparr>writes := Suc (writes s)\<rparr> in
      case write_result e (writes s) p of
        WriteOk \<Rightarrow> (None, s1\<lparr>files := (files s)(p \<mapsto> c)\<rparr>)
      | OpenFails x \<Rightarrow> (Some x, s1)
      | WriteFails x \<Rightarrow> (Some x, s1\<lparr>files := (files s)(p \<mapsto> Partial)\<rparr>))"

section \<open>Cache store of the multi-modal script\<close>

text \<open>
  The body of the \<^verbatim>\<open>try\<close> block of \<^verbatim>\<open>load_cached_tweets\<close>: \<open>Inr None\<close> is
  the fall-through of an expired snapshot.
\<close>

definition gemini_read_cache :: "env \<Rightarrow> file_content \<Rightarrow> exn + (json \<times> datetime) option" where
  "gemini_read_cache e c =
     (case json_load c of
        Inl x \<Rightarrow> Inl x
      | Inr d \<Rightarrow>
         (case subscript d ''timestamp'' of
            Inl x \<Rightarrow> Inl x
          | Inr ts \<Rightarrow>
             (case parse_time e ts of
                Inl x \<Rightarrow> Inl x
              | Inr cache_time \<Rightarrow>
                 (case time_since (now_load e) cache_time of
                    Inl x \<Rightarrow> Inl x
                  | Inr age \<Rightarrow>
                     if age < timedelta_hours_24
                     then (case subscript d ''tweets'' of
                             Inl x \<Rightarrow> Inl x
                           | Inr tw \<Rightarrow> Inr (Some (tw, cache_time)))
                     else Inr None))))"

text \<open>
  \<^verbatim>\<open>load_cached_tweets\<close>; the result \<open>Inr None\<close> is the pair \<^verbatim>\<open>(None, None)\<close>.
  The handler prints the exception's message; when the console raises on it, that
  exception leaves \<^verbatim>\<open>load_cached_tweets\<close>.
\<close>

definition gemini_load_cached_tweets :: "env \<Rightarrow> analyser \<Rightarrow> string
    \<Rightarrow> (exn + (json \<times> datetime) option) \<times> analyser" where
  "gemini_load_cached_tweets e s u =
     (case files s (cache_file u) of
        None \<Rightarrow> (Inr None, s)
      | Some c \<Rightarrow>
         (case gemini_read_cache e c of
            Inl x \<Rightarrow> print_then e (Warning_load_cache x) None s
          | Inr r \<Rightarrow> (Inr r, s)))"

text \<open>\<^verbatim>\<open>save_tweets_to_cache\<close>; \<open>Some x\<close> is an exception that leaves it.\<close>

definition gemini_save_tweets_to_cache :: "env \<Rightarrow> analyser \<Rightarrow> string \<Rightarrow> json \<Rightarrow> exn option \<times> analyser" where
  "gemini_save_tweets_to_cache e s u tw =
     (case write_file e (cache_file u)
             (JsonText (JObj [(''timestamp'', JStr (isoformat e (now_save e))), (''tweets'', tw)])) s of
        (None, s') \<Rightarrow> (None, s')
      | (Some x, s') \<Rightarrow> console_print e (Warning_save_cache x) s')"

section \<open>Cache store of the chat-completion script\<close>

definition openrouter_load_cached_tweets :: "env \<Rightarrow> analyser \<Rightarrow> string \<Rightarrow> exn + (json \<times> datetime) option" where
  "openrouter_load_cached_tweets e s u =
     (case files s (cache_file u) of
        None \<Rightarrow> Inr None
      | Some c \<Rightarrow>
         (case json_load c of
            Inl x \<Rightarrow> Inl x
          | Inr d \<Rightarrow>
             (case subscript d ''cached_at'' of
                Inl x \<Rightarrow> Inl x
              | Inr ts \<Rightarrow>
                 (case parse_time e ts of
                    Inl x \<Rightarrow> Inl x
                  | Inr cache_time \<Rightarrow>
                     (case time_since (now_load e) cache_time of
                        Inl x \<Rightarrow> Inl x
                      | Inr age \<Rightarrow>
                         if age > timedelta_hours_24 then Inr None
                         else (case subscript d ''tweets'' of
                                 Inl x \<Rightarrow> Inl x
                               | Inr tw \<Rightarrow> Inr (Some (tw, cache_time))))))))"

definition openrouter_save_tweets_to_cache :: "env \<Rightarrow> analyser \<Rightarrow> string \<Rightarrow> json \<Rightarrow> exn option \<times> analyser" where
  "openrouter_save_tweets_to_cache e s u tw =
     write_file e (cache_file u)
       (JsonText (JObj [(''tweets'', tw), (''cached_at'', JStr (isoformat e (now_save e)))])) s"

section \<open>Post fetcher of the multi-modal script\<close>

text \<open>
  \<^verbatim>\<open>download_media\<close>: \<open>Inr (Some path)\<close> is the returned path, \<open>Inr None\<close> the
  returned \<^verbatim>\<open>None\<close>, and \<open>Inl\<close> the exception of the handler's own print.
\<close>

definition download_media :: "env \<Rightarrow> analyser \<Rightarrow> string \<Rightarrow> int \<Rightarrow> (exn + string option) \<times> analyser" where
  "download_media e s media_url tid =
     (let s1 = call (Requests_get media_url) s in
      case requests_get e media_url of
        Inl x \<Rightarrow> print_then e (Warning_download_media x) None s1
      | Inr response \<Rightarrow>
         if status_code response = 200
         then (case write_file e (media_file tid) (Bytes (content response)) s1 of
                 (None, s2) \<Rightarrow> (Inr (Some (media_file tid)), s2)
               | (Some x, s2) \<Rightarrow> print_then e (Warning_download_media x) None s2)
         else (Inr None, s1))"

text \<open>\<^verbatim>\<open>media.url or media.preview_image_url\<close>, then the test \<^verbatim>\<open>if media_url\<close>.\<close>

definition choose_media_url :: "api_media \<Rightarrow> string option" where
  "choose_media_url m =
     (let media_url = (case url m of
                         None \<Rightarrow> preview_image_url m
                       | Some a \<Rightarrow> if a \<noteq> [] then Some a else preview_image_url m)
      in case media_url of None \<Rightarrow> None | Some a \<Rightarrow> if a \<noteq> [] then Some a else None)"

text \<open>The dict comprehension building \<^verbatim>\<open>media_lookup\<close>: a later item replaces an earlier one.\<close>

definition media_lookup :: "tweets_response \<Rightarrow> string \<rightharpoonup> api_media" where
  "media_lookup r =
     (case includes_media r of
        None \<Rightarrow> Map.empty
      | Some ms \<Rightarrow> map_of (rev (map (\<lambda>m. (media_key m, m)) ms)))"

text \<open>The loop over \<^verbatim>\<open>media_keys\<close>; \<open>acc\<close> is \<^verbatim>\<open>tweet_data['media']\<close>.\<close>

fun media_loop :: "env \<Rightarrow> (string \<rightharpoonup> api_media) \<Rightarrow> int \<Rightarrow> string list \<Rightarrow> json list \<Rightarrow> analyser
    \<Rightarrow> (exn + json list) \<times> analyser" where
  "media_loop e lookup tid [] acc s = (Inr acc, s)"
| "media_loop e lookup tid (key # keys) acc s =
     (case lookup key of
        None \<Rightarrow> media_loop e lookup tid keys acc s
      | Some media \<Rightarrow>
         (case choose_media_url media of
            None \<Rightarrow> media_loop e lookup tid keys acc s
          | Some media_url \<Rightarrow>
             (case download_media e s media_url tid of
                (Inl x, s1) \<Rightarrow> (Inl x, s1)
              | (Inr None, s1) \<Rightarrow> media_loop e lookup tid keys acc s1
              | (Inr (Some media_path), s1) \<Rightarrow>
                  media_loop e lookup tid keys (acc @ [JStr media_path]) s1)))"

definition media_keys_of :: "api_tweet \<Rightarrow> string list" where
  "media_keys_of t =
     (case attachments t of
        None \<Rightarrow> []
      | Some a \<Rightarrow> if a = [] then [] else (case map_of a ''media_keys'' of None \<Rightarrow> [] | Some ks \<Rightarrow> ks))"

definition gemini_tweet_data :: "env \<Rightarrow> api_tweet \<Rightarrow> json list \<Rightarrow> json" where
  "gemini_tweet_data e t media =
     JObj [(''id'', JInt (tweet_id t)),
           (''text'', JStr (tweet_text t)),
           (''created_at'', JStr (isoformat e (created_at t))),
           (''metrics'', public_metrics t),
           (''media'', JList media)]"

text \<open>
  The loop over \<^verbatim>\<open>tweets.data\<close>, appending to \<^verbatim>\<open>self.tweets\<close>; \<open>Some x\<close> is an
  exception that ends it, with the posts appended so far.
\<close>

fun tweets_loop :: "env \<Rightarrow> (string \<rightharpoonup> api_media) \<Rightarrow> api_tweet list \<Rightarrow> analyser
    \<Rightarrow> exn option \<times> analyser" where
  "tweets_loop e lookup [] s = (None, s)"
| "tweets_loop e lookup (t # ts) s =
     (case media_loop e lookup (tweet_id t) (media_keys_of t) [] s of
        (Inl x, s1) \<Rightarrow> (Some x, s1)
      | (Inr media, s1) \<Rightarrow>
          tweets_loop e lookup ts (s1\<lparr>tweets := list_append (tweets s1) (gemini_tweet_data e t media)\<rparr>))"

text \<open>
  The \<^verbatim>\<open>try\<close> block of \<^verbatim>\<open>fetch_tweets\<close>. \<open>Inl\<close> is a raised exception,
  \<open>Inr (Some b)\<close> a \<^verbatim>\<open>return b\<close>, and \<open>Inr None\<close> leaving the block without a return.
\<close>

definition gemini_fetch_fresh :: "env \<Rightarrow> analyser \<Rightarrow> string \<Rightarrow> (exn + bool option) \<times> analyser" where
  "gemini_fetch_fresh e s u =
     (let s1 = call (Get_user u) s in
      case get_user e u of
        Inl x \<Rightarrow> (Inl x, s1)
      | Inr None \<Rightarrow> (Inr (Some False), say User_not_found s1)
      | Inr (Some uid) \<Rightarrow>
         (let s2 = call (Get_users_tweets uid) s1 in
          case get_users_tweets e uid of
            Inl x \<Rightarrow> (Inl x, s2)
          | Inr r \<Rightarrow>
             (case data r of
                None \<Rightarrow> (Inr None, s2)
              | Some ts \<Rightarrow>
                 if ts = [] then (Inr None, s2)
                 else (case tweets_loop e (media_lookup r) ts (s2\<lparr>tweets := JList []\<rparr>) of
                         (Some x, s3) \<Rightarrow> (Inl x, s3)
                       | (None, s3) \<Rightarrow>
                          (case gemini_save_tweets_to_cache e s3 u (tweets s3) of
                             (Some x, s4) \<Rightarrow> (Inl x, s4)
                           | (None, s4) \<Rightarrow> (Inr (Some True), s4))))))"

text \<open>
  The \<^verbatim>\<open>try\<close> block with its handler and the final \<^verbatim>\<open>return False\<close>. The handler
  prints the exception's message; when the console raises on it, that exception leaves
  \<^verbatim>\<open>fetch_tweets\<close>.
\<close>

definition gemini_fetch_network :: "env \<Rightarrow> analyser \<Rightarrow> string \<Rightarrow> (exn + bool) \<times> analyser" where
  "gemini_fetch_network e s u =
     (case gemini_fetch_fresh e s u of
        (Inl x, s1) \<Rightarrow> print_then e (Error_line x) False s1
      | (Inr (Some b), s1) \<Rightarrow> (Inr b, s1)
      | (Inr None, s1) \<Rightarrow> (Inr False, s1))"

text \<open>
  \<^verbatim>\<open>fetch_tweets\<close>. The cache is read before the \<^verbatim>\<open>try\<close> block, so an exception
  that leaves \<^verbatim>\<open>load_cached_tweets\<close> leaves \<^verbatim>\<open>fetch_tweets\<close> too.
\<close>

definition gemini_fetch_tweets :: "env \<Rightarrow> analyser \<Rightarrow> string \<Rightarrow> bool \<Rightarrow> (exn + bool) \<times> analyser" where
  "gemini_fetch_tweets e s u force_refresh =
     (let s0 = s\<lparr>username := Some u\<rparr> in
      if force_refresh then gemini_fetch_network e s0 u
      else (case gemini_load_cached_tweets e s0 u of
              (Inl x, s1) \<Rightarrow> (Inl x, s1)
            | (Inr None, s1) \<Rightarrow> gemini_fetch_network e s1 u
            | (Inr (Some (cached_tweets, cache_time)), s1) \<Rightarrow>
                if truthy cached_tweets
                then (Inr True, say (Using_cached_tweets cache_time) (s1\<lparr>tweets := cached_tweets\<rparr>))
                else gemini_fetch_network e s1 u))"

subsection \<open>Clearing and refreshing\<close>







section \<open>Post fetcher of the chat-completion script\<close>

definition openrouter_tweet_data :: "env \<Rightarrow> api_tweet \<Rightarrow> json" where
  "openrouter_tweet_data e t =
     JObj [(''id'', JInt (tweet_id t)),
           (''text'', JStr (tweet_text t)),
           (''created_at'', JStr (isoformat e (created_at t))),
           (''metrics'', public_metrics t)]"

definition openrouter_fetch_fresh :: "env \<Rightarrow> analyser \<Rightarrow> string \<Rightarrow> (exn + bool option) \<times> analyser" where
  "openrouter_fetch_fresh e s u =
     (let s1 = call (Get_user u) s in
      case get_user e u of
        Inl x \<Rightarrow> (Inl x, s1)
      | Inr None \<Rightarrow> (Inr (Some False), s1)
      | Inr (Some uid) \<Rightarrow>
         (let s2 = call (Get_users_tweets uid) s1 in
          case get_users_tweets e uid of
            Inl x \<Rightarrow> (Inl x, s2)
          | Inr r \<Rightarrow>
             (case data r of
                None \<Rightarrow> (Inr None, s2)
              | Some ts \<Rightarrow>
                 if ts = [] then (Inr None, s2)
                 else (let s3 = s2\<lparr>tweets := JList (map (openrouter_tweet_data e) ts)\<rparr> in
                       case openrouter_save_tweets_to_cache e s3 u (tweets s3) of
                         (Some x, s4) \<Rightarrow> (Inl x, s4)
                       | (None, s4) \<Rightarrow> (Inr (Some True), s4)))))"

definition openrouter_fetch_network :: "env \<Rightarrow> analyser \<Rightarrow> string \<Rightarrow> (exn + bool) \<times> analyser" where
  "openrouter_fetch_network e s u =
     (case openrouter_fetch_fresh e s u of
        (Inl x, s1) \<Rightarrow> print_then e (Error_line x) False s1
      | (Inr (Some b), s1) \<Rightarrow> (Inr b, s1)
      | (Inr None, s1) \<Rightarrow> (Inr False, s1))"

text \<open>
  \<^verbatim>\<open>fetch_tweets\<close> calls \<^verbatim>\<open>load_cached_tweets\<close> before its \<^verbatim>\<open>try\<close> block, so an
  exception of the cache store leaves \<^verbatim>\<open>fetch_tweets\<close> (\<open>Inl\<close>).
\<close>

definition openrouter_fetch_tweets :: "env \<Rightarrow> analyser \<Rightarrow> string \<Rightarrow> (exn + bool) \<times> analyser" where
  "openrouter_fetch_tweets e s u =
     (case openrouter_load_cached_tweets e s u of
        Inl x \<Rightarrow> (Inl x, s)
      | Inr None \<Rightarrow> openrouter_fetch_network e s u
      | Inr (Some (cached_tweets, cache_time)) \<Rightarrow>
          if truthy cached_tweets
          then (Inr True, say (Using_cached_tweets cache_time) (s\<lparr>tweets := cached_tweets\<rparr>))
          else openrouter_fetch_network e s u)"

section \<open>Prompt builder and backend of the multi-modal script\<close>

definition nl :: string where
  "nl = [CHR 0x0A]"

text \<open>
  \<^verbatim>\<open>load_image\<close>: the image, or \<^verbatim>\<open>None\<close> after a warning; \<open>Inl\<close> is the exception
  of the handler's own print.
\<close>

definition load_image :: "env \<Rightarrow> analyser \<Rightarrow> json \<Rightarrow> (exn + file_content option) \<times> analyser" where
  "load_image e s image_path =
     (case image_path of
        JStr path \<Rightarrow>
          (case files s path of
             None \<Rightarrow> print_then e (Warning_load_image image_path FileNotFoundError) None s
           | Some c \<Rightarrow>
              (case image_open e c of
                 Some x \<Rightarrow> print_then e (Warning_load_image image_path x) None s
               | None \<Rightarrow> (Inr (Some c), s)))
      | _ \<Rightarrow> print_then e (Warning_load_image image_path AttributeError) None s)"

fun images_loop :: "env \<Rightarrow> json list \<Rightarrow> file_content list \<Rightarrow> analyser
    \<Rightarrow> (exn + file_content list) \<times> analyser" where
  "images_loop e [] images s = (Inr images, s)"
| "images_loop e (media_path # rest) images s =
     (case load_image e s media_path of
        (Inl x, s1) \<Rightarrow> (Inl x, s1)
      | (Inr None, s1) \<Rightarrow> images_loop e rest images s1
      | (Inr (Some img), s1) \<Rightarrow> images_loop e rest (images @ [img]) s1)"

definition gemini_prompt_head :: "string option \<Rightarrow> string \<Rightarrow> string" where
  "gemini_prompt_head u question =
     ''Analyze these tweets from @'' @ str_username u @ '' to answer: '' @ question @ nl
     @ ''            '' @ nl
     @ ''Please provide a clear and concise analysis considering both the text content and any images present.'' @ nl
     @ nl
     @ ''Tweets:'' @ nl"

text \<open>The two lines a tweet adds to the prompt; a missing key raises.\<close>

definition tweet_lines :: "env \<Rightarrow> json \<Rightarrow> exn + string" where
  "tweet_lines e tweet =
     (case subscript tweet ''text'' of
        Inl x \<Rightarrow> Inl x
      | Inr txt \<Rightarrow>
         (case subscript tweet ''metrics'' of
            Inl x \<Rightarrow> Inl x
          | Inr metrics \<Rightarrow>
             (case subscript metrics ''like_count'' of
                Inl x \<Rightarrow> Inl x
              | Inr likes \<Rightarrow>
                 (case subscript metrics ''reply_count'' of
                    Inl x \<Rightarrow> Inl x
                  | Inr replies \<Rightarrow>
                     (case subscript metrics ''retweet_count'' of
                        Inl x \<Rightarrow> Inl x
                      | Inr retweets \<Rightarrow>
                          Inr (nl @ ''Text: '' @ py_str e txt @ nl
                               @ ''Metrics: '' @ py_str e likes @ '' likes, ''
                               @ py_str e replies @ '' replies, ''
                               @ py_str e retweets @ '' retweets'' @ nl))))))"

text \<open>The loop over \<^verbatim>\<open>self.tweets\<close> of \<^verbatim>\<open>analyse_with_gemini\<close>; it stands before the \<^verbatim>\<open>try\<close>.\<close>

fun prompt_loop :: "env \<Rightarrow> json list \<Rightarrow> string \<Rightarrow> file_content list \<Rightarrow> analyser
    \<Rightarrow> (exn + string \<times> file_content list) \<times> analyser" where
  "prompt_loop e [] prompt images s = (Inr (prompt, images), s)"
| "prompt_loop e (tweet # rest) prompt images s =
     (case tweet_lines e tweet of
        Inl x \<Rightarrow> (Inl x, s)
      | Inr ls \<Rightarrow>
         (case subscript tweet ''media'' of
            Inl x \<Rightarrow> (Inl x, s)
          | Inr m \<Rightarrow>
             if truthy m
             then (case py_iter m of
                     Inl x \<Rightarrow> (Inl x, s)
                   | Inr ps \<Rightarrow>
                      (case images_loop e ps images s of
                         (Inl x, s1) \<Rightarrow> (Inl x, s1)
                       | (Inr images1, s1) \<Rightarrow> prompt_loop e rest (prompt @ ls) images1 s1))
             else prompt_loop e rest (prompt @ ls) images s))"

text \<open>What is handed to \<^verbatim>\<open>generate_content\<close>: the prompt alone, or the prompt and the images.\<close>

definition gemini_build :: "env \<Rightarrow> analyser \<Rightarrow> string \<Rightarrow> (exn + gemini_payload) \<times> analyser" where
  "gemini_build e s question =
     (case py_iter (tweets s) of
        Inl x \<Rightarrow> (Inl x, s)
      | Inr ts \<Rightarrow>
         (case prompt_loop e ts (gemini_prompt_head (username s) question) [] s of
            (Inl x, s1) \<Rightarrow> (Inl x, s1)
          | (Inr (prompt, images), s1) \<Rightarrow>
              (Inr (if images \<noteq> [] then Prompt_with_images prompt images else Prompt_only prompt), s1)))"

text \<open>
  The \<^verbatim>\<open>try\<close> block of \<^verbatim>\<open>analyse_with_gemini\<close>: the call of the model, then the
  panel with the answer.
\<close>

definition gemini_send :: "env \<Rightarrow> analyser \<Rightarrow> gemini_payload \<Rightarrow> exn option \<times> analyser" where
  "gemini_send e s payload =
     (let s1 = call (Generate_content payload) s in
      case generate_content e payload of
        Inl x \<Rightarrow> (Some x, s1)
      | Inr (Inl x) \<Rightarrow> (Some x, s1)
      | Inr (Inr analysis) \<Rightarrow> (None, say (Analysis_panel analysis) s1))"

text \<open>
  \<^verbatim>\<open>analyse_with_gemini\<close>; \<open>Some x\<close> is an exception that leaves the method: one
  raised while the prompt is built, before the \<^verbatim>\<open>try\<close>, or the one of the handler's
  own print.
\<close>

definition analyse_with_gemini :: "env \<Rightarrow> analyser \<Rightarrow> string \<Rightarrow> exn option \<times> analyser" where
  "analyse_with_gemini e s question =
     (if \<not> truthy (tweets s) then (None, say No_tweets_loaded s)
      else (case gemini_build e s question of
              (Inl x, s1) \<Rightarrow> (Some x, s1)
            | (Inr payload, s1) \<Rightarrow>
               (case gemini_send e s1 payload of
                  (None, s2) \<Rightarrow> (None, s2)
                | (Some x, s2) \<Rightarrow> console_print e (Error_during_analysis x) s2)))"

section \<open>Prompt builder and backend of the chat-completion script\<close>

definition system_content :: string where
  "system_content = ''You are analyzing Twitter/X user activity. Focus on key patterns in behavior, interests, and communication style. Provide concise, data-driven insights based only on the provided tweets.''"

definition openrouter_messages :: "env \<Rightarrow> analyser \<Rightarrow> string \<Rightarrow> (string \<times> string) list" where
  "openrouter_messages e s question =
     [(''system'', system_content),
      (''user'', ''Based on these tweets from @'' @ str_username (username s) @ '', '' @ question
                 @ nl @ nl @ ''Tweets:'' @ nl @ json_dumps e (tweets s))]"

definition openrouter_build :: "env \<Rightarrow> analyser \<Rightarrow> string \<Rightarrow> string \<Rightarrow> chat_request" where
  "openrouter_build e s question mdl =
     \<lparr>headers = [(''Authorization'', ''Bearer '' @ openrouter_key s),
                 (''HTTP-Referer'', ''https://github.com/your-repo''),
                 (''X-Title'', ''Twitter Analyzer''),
                 (''Content-Type'', ''application/json'')],
      model = mdl,
      messages = openrouter_messages e s question,
      temperature = ''0.7'',
      max_tokens = 1000\<rparr>"

text \<open>\<^verbatim>\<open>response.json()['choices'][0]['message']['content']\<close>, given to \<^verbatim>\<open>Markdown\<close>.\<close>

definition response_analysis :: "http_response \<Rightarrow> exn + string" where
  "response_analysis r =
     (case json_body r of
        None \<Rightarrow> Inl JSONDecodeError
      | Some j \<Rightarrow>
         (case subscript j ''choices'' of
            Inl x \<Rightarrow> Inl x
          | Inr cs \<Rightarrow>
             (case subscript0 cs of
                Inl x \<Rightarrow> Inl x
              | Inr c \<Rightarrow>
                 (case subscript c ''message'' of
                    Inl x \<Rightarrow> Inl x
                  | Inr m \<Rightarrow>
                     (case subscript m ''content'' of
                        Inl x \<Rightarrow> Inl x
                      | Inr (JStr analysis) \<Rightarrow> Inr analysis
                      | Inr _ \<Rightarrow> Inl TypeError)))))"

text \<open>
  The \<^verbatim>\<open>try\<close> block of \<^verbatim>\<open>analyse_with_openrouter\<close>. The line for a status other
  than 200 shows the response body and is printed inside the block.
\<close>

definition openrouter_send :: "env \<Rightarrow> analyser \<Rightarrow> chat_request \<Rightarrow> exn option \<times> analyser" where
  "openrouter_send e s request =
     (let s1 = call (Requests_post request) s in
      case requests_post e request of
        Inl x \<Rightarrow> (Some x, s1)
      | Inr response \<Rightarrow>
         if status_code response = 200
         then (case response_analysis response of
                 Inl x \<Rightarrow> (Some x, s1)
               | Inr analysis \<Rightarrow> (None, say (Analysis_panel analysis) s1))
         else console_print e (Error_status (status_code response) (response_text response)) s1)"

text \<open>
  \<^verbatim>\<open>analyse_with_openrouter\<close>; \<open>Some x\<close> is an exception that leaves the method, which
  can only be the one of the handler's own print.
\<close>

definition analyse_with_openrouter :: "env \<Rightarrow> analyser \<Rightarrow> string \<Rightarrow> string \<Rightarrow> exn option \<times> analyser" where
  "analyse_with_openrouter e s question mdl =
     (if \<not> truthy (tweets s) then (None, say No_tweets_loaded s)
      else (case openrouter_send e s (openrouter_build e s question mdl) of
              (Some x, s1) \<Rightarrow> console_print e (Error_line x) s1
            | (None, s1) \<Rightarrow> (None, s1)))"

section \<open>Observations used in the statements\<close>


definition key_urls :: "(string \<rightharpoonup> api_media) \<Rightarrow> string list \<Rightarrow> string list" where
  "key_urls lookup keys =
     concat (map (\<lambda>key. case lookup key of
                           None \<Rightarrow> []
                         | Some media \<Rightarrow> (case choose_media_url media of None \<Rightarrow> [] | Some u \<Rightarrow> [u]))
                 keys)"

definition media_urls :: "(string \<rightharpoonup> api_media) \<Rightarrow> api_tweet \<Rightarrow> string list" where
  "media_urls lookup t = key_urls lookup (media_keys_of t)"

definition gets_200 :: "env \<Rightarrow> string \<Rightarrow> bool" where
  "gets_200 e media_url =
     (case requests_get e media_url of Inl x \<Rightarrow> False | Inr response \<Rightarrow> status_code response = 200)"

fun saved_count :: "env \<Rightarrow> nat \<Rightarrow> int \<Rightarrow> string list \<Rightarrow> nat" where
  "saved_count e n tid [] = 0"
| "saved_count e n tid (media_url # rest) =
     (if gets_200 e media_url
      then (if write_result e n (media_file tid) = WriteOk then 1 else 0) + saved_count e (Suc n) tid rest
      else saved_count e n tid rest)"

definition opened_count :: "env \<Rightarrow> string list \<Rightarrow> nat" where
  "opened_count e urls = length (filter (gets_200 e) urls)"

text \<open>
  A post as the data model of the specification describes it for the multi-modal
  script: id, text, creation time, metrics, and a media list that holds \<open>k\<close> times the
  one path made from the post id. \<open>expected_posts\<close> is the collection for the posts
  the API returned, in order, when the first write of the fetch is the n-th of the call.
\<close>

definition expected_post :: "env \<Rightarrow> api_tweet \<Rightarrow> nat \<Rightarrow> json" where
  "expected_post e t k =
     JObj [(''id'', JInt (tweet_id t)),
           (''text'', JStr (tweet_text t)),
           (''created_at'', JStr (isoformat e (created_at t))),
           (''metrics'', public_metrics t),
           (''media'', JList (replicate k (JStr (media_file (tweet_id t)))))]"

fun expected_posts :: "env \<Rightarrow> (string \<rightharpoonup> api_media) \<Rightarrow> nat \<Rightarrow> api_tweet list \<Rightarrow> json list" where
  "expected_posts e lookup n [] = []"
| "expected_posts e lookup n (t # ts) =
     expected_post e t (saved_count e n (tweet_id t) (media_urls lookup t))
     # expected_posts e lookup (n + opened_count e (media_urls lookup t)) ts"

text \<open>A post whose media list holds nothing but the path made from its own id.\<close>

definition own_path_only :: "json \<Rightarrow> bool" where
  "own_path_only post =
     (case subscript post ''id'' of
        Inr (JInt tid) \<Rightarrow>
          (case subscript post ''media'' of
             Inr (JList ms) \<Rightarrow> list_all (\<lambda>m. m = JStr (media_file tid)) ms
           | _ \<Rightarrow> False)
      | _ \<Rightarrow> False)"

definition all_own_paths :: "json \<Rightarrow> bool" where
  "all_own_paths v = (case v of JList posts \<Rightarrow> list_all own_path_only posts | _ \<Rightarrow> False)"

text \<open>
  The timestamp of the snapshot on disk, as each script reads it (a naive time), and the
  text of a multi-modal request.
\<close>

definition gemini_fetched_at :: "env \<Rightarrow> analyser \<Rightarrow> string \<Rightarrow> int option" where
  "gemini_fetched_at e s u =
     (case files s (cache_file u) of
        None \<Rightarrow> None
      | Some c \<Rightarrow>
         (case json_load c of
            Inl x \<Rightarrow> None
          | Inr d \<Rightarrow>
             (case subscript d ''timestamp'' of
                Inl x \<Rightarrow> None
              | Inr ts \<Rightarrow>
                 (case parse_time e ts of Inr (Naive t) \<Rightarrow> Some t | _ \<Rightarrow> None))))"

definition openrouter_fetched_at :: "env \<Rightarrow> analyser \<Rightarrow> string \<Rightarrow> int option" where
  "openrouter_fetched_at e s u =
     (case files s (cache_file u) of
        None \<Rightarrow> None
      | Some c \<Rightarrow>
         (case json_load c of
            Inl x \<Rightarrow> None
          | Inr d \<Rightarrow>
             (case subscript d ''cached_at'' of
                Inl x \<Rightarrow> None
              | Inr ts \<Rightarrow>
                 (case parse_time e ts of Inr (Naive t) \<Rightarrow> Some t | _ \<Rightarrow> None))))"

fun payload_prompt :: "gemini_payload \<Rightarrow> string" where
  "payload_prompt (Prompt_only prompt) = prompt"
| "payload_prompt (Prompt_with_images prompt images) = prompt"

section \<open>Example inputs\<close>

text \<open>
  A small world for running the definitions: two dates of the ISO format, one of them
  also with a UTC offset, a rendering of strings and integers, a console that prints
  every line, a disk that accepts every write and a network that is down.
\<close>

definition example_isoformat :: "int \<Rightarrow> string" where
  "example_isoformat t =
     (if t = 0 then ''1970-01-01T00:00:00''
      else if t = 86400000000 then ''1970-01-02T00:00:00''
      else ''1970-01-03T00:00:00'')"

definition example_fromisoformat :: "string \<Rightarrow> datetime option" where
  "example_fromisoformat s =
     (if s = ''1970-01-01T00:00:00'' then Some (Naive 0)
      else if s = ''1970-01-02T00:00:00'' then Some (Naive 86400000000)
      else if s = ''1970-01-01T00:00:00+00:00'' then Some (Aware 0)
      else None)"

definition example_py_str :: "json \<Rightarrow> string" where
  "example_py_str v = (case v of JStr s \<Rightarrow> s | JInt i \<Rightarrow> str_int i | _ \<Rightarrow> ''None'')"

definition example_image_open :: "file_content \<Rightarrow> exn option" where
  "example_image_open c = (case c of Bytes b \<Rightarrow> None | _ \<Rightarrow> Some OSError)"

definition offline_env :: env where
  "offline_env =
     \<lparr>now_load = 0, now_save = 0,
      isoformat = example_isoformat, fromisoformat = example_fromisoformat,
      py_str = example_py_str, json_dumps = (\<lambda>v. ''[...]''),
      image_open = example_image_open,
      markup_error = (\<lambda>l. None),
      get_user = (\<lambda>u. Inl TweepyException),
      get_users_tweets = (\<lambda>i. Inl TweepyException),
      requests_get = (\<lambda>u. Inl RequestException),
      requests_post = (\<lambda>r. Inl RequestException),
      generate_content = (\<lambda>p. Inl GenerationError),
      write_result = (\<lambda>n p. WriteOk),
      unlink_result = (\<lambda>p. None)\<rparr>"

definition failing_disk_env :: env where
  "failing_disk_env = offline_env\<lparr>write_result := (\<lambda>n p. WriteFails OSError)\<rparr>"

definition new_analyser :: analyser where
  "new_analyser =
     \<lparr>tweets = JList [], username = None, openrouter_key = ''sk-or'',
      files = Map.empty, writes = 0, console = [], net = []\<rparr>"

definition example_post :: json where
  "example_post =
     JObj [(''id'', JInt 1), (''text'', JStr ''hello''),
           (''created_at'', JStr ''1970-01-01T00:00:00''),
           (''metrics'', JObj [(''like_count'', JInt 2), (''reply_count'', JInt 0),
                               (''retweet_count'', JInt 1)]),
           (''media'', JList [])]"

definition gemini_snapshot :: file_content where
  "gemini_snapshot =
     JsonText (JObj [(''timestamp'', JStr ''1970-01-01T00:00:00''), (''tweets'', JList [example_post])])"

definition openrouter_snapshot :: file_content where
  "openrouter_snapshot =
     JsonText (JObj [(''tweets'', JList [example_post]), (''cached_at'', JStr ''1970-01-01T00:00:00'')])"

definition alice_cached :: analyser where
  "alice_cached =
     new_analyser\<lparr>tweets := JList [example_post], username := Some ''alice'',
       files := [cache_file ''alice'' \<mapsto> gemini_snapshot]\<rparr>"

definition example_metrics :: json where
  "example_metrics = JObj [(''like_count'', JInt 2), (''reply_count'', JInt 0), (''retweet_count'', JInt 1)]"

definition tweet7 :: api_tweet where
  "tweet7 =
     \<lparr>tweet_id = 7, tweet_text = ''three pictures'', created_at = 0, public_metrics = example_metrics,
      attachments = Some [(''media_keys'', [''m1'', ''m2'', ''m3''])]\<rparr>"

definition tweet8 :: api_tweet where
  "tweet8 =
     \<lparr>tweet_id = 8, tweet_text = ''one picture'', created_at = 0, public_metrics = example_metrics,
      attachments = Some [(''media_keys'', [''m4''])]\<rparr>"

definition tweet9 :: api_tweet where
  "tweet9 =
     \<lparr>tweet_id = 9, tweet_text = ''no picture'', created_at = 0, public_metrics = example_metrics,
      attachments = None\<rparr>"

definition example_tweets :: "api_tweet list" where
  "example_tweets = [tweet7, tweet8, tweet9]"

definition example_media :: "api_media list" where
  "example_media =
     [\<lparr>media_key = ''m1'', url = Some ''https://img/1'', preview_image_url = None\<rparr>,
      \<lparr>media_key = ''m2'', url = None, preview_image_url = Some ''https://img/2''\<rparr>,
      \<lparr>media_key = ''m3'', url = Some ''https://img/3'', preview_image_url = None\<rparr>,
      \<lparr>media_key = ''m4'', url = Some ''https://img/4'', preview_image_url = None\<rparr>]"

definition example_response :: tweets_response where
  "example_response = \<lparr>data = Some example_tweets, includes_media = Some example_media\<rparr>"

definition example_requests_get :: "string \<Rightarrow> exn + http_response" where
  "example_requests_get u =
     (if u = ''https://img/1''
      then Inr \<lparr>status_code = 200, content = ''AAA'', response_text = ''AAA'', json_body = None\<rparr>
      else if u = ''https://img/3''
      then Inr \<lparr>status_code = 200, content = ''CCC'', response_text = ''CCC'', json_body = None\<rparr>
      else if u = ''https://img/4''
      then Inr \<lparr>status_code = 500, content = '''', response_text = '''', json_body = None\<rparr>
      else Inl RequestException)"

definition rate_limited :: http_response where
  "rate_limited = \<lparr>status_code = 429, content = ''rate limited'', response_text = ''rate limited'',
     json_body = None\<rparr>"

definition online_env :: env where
  "online_env =
     offline_env\<lparr>get_user := (\<lambda>u. if u = ''alice'' then Inr (Some 42) else Inr None),
       get_users_tweets := (\<lambda>i. Inr example_response),
       requests_get := example_requests_get,
       requests_post := (\<lambda>r. Inr rate_limited),
       generate_content := (\<lambda>p. Inr (Inr ''They post pictures.''))\<rparr>"

definition alice_openrouter :: analyser where
  "alice_openrouter =
     new_analyser\<lparr>tweets := JList [example_post], username := Some ''alice'',
       files := [cache_file ''alice'' \<mapsto> openrouter_snapshot]\<rparr>"


definition empty_choices :: http_response where
  "empty_choices = \<lparr>status_code = 200, content = ''no choices'', response_text = ''no choices'',
     json_body = Some (JObj [(''choices'', JList [])])\<rparr>"

definition sonnet :: string where
  "sonnet = ''anthropic/claude-3-sonnet''"

definition picture_post :: json where
  "picture_post =
     JObj [(''id'', JInt 7), (''text'', JStr ''hello''),
           (''created_at'', JStr ''1970-01-01T00:00:00''),
           (''metrics'', JObj [(''like_count'', JInt 2), (''reply_count'', JInt 0),
                               (''retweet_count'', JInt 1)]),
           (''media'', JList [JStr ''cache/media/7.jpg''])]"

definition with_picture :: analyser where
  "with_picture =
     new_analyser\<lparr>tweets := JList [picture_post], username := Some ''alice'',
       files := [''cache/media/7.jpg'' \<mapsto> Bytes ''AAA'']\<rparr>"

definition picture_deleted :: analyser where
  "picture_deleted = with_picture\<lparr>files := Map.empty\<rparr>"

definition picture_prompt :: string where
  "picture_prompt =
     gemini_prompt_head (Some ''alice'') ''What do they post?''
     @ nl @ ''Text: hello'' @ nl @ ''Metrics: 2 likes, 0 replies, 1 retweets'' @ nl"

definition hours :: "int \<Rightarrow> int" where
  "hours n = n * 3600 * 1000000"

definition at_hour :: "int \<Rightarrow> env \<Rightarrow> env" where
  "at_hour n e = e\<lparr>now_load := hours n, now_save := hours n\<rparr>"

definition gemini_fetched :: analyser where
  "gemini_fetched = snd (gemini_fetch_tweets online_env new_analyser ''alice'' False)"

definition openrouter_fetched :: analyser where
  "openrouter_fetched = snd (openrouter_fetch_tweets online_env new_analyser ''alice'')"

definition seen_at_23h :: analyser where
  "seen_at_23h = say (Using_cached_tweets (Naive 0)) alice_cached"

definition unwritable_env :: env where
  "unwritable_env = online_env\<lparr>write_result := (\<lambda>n p. WriteFails OSError)\<rparr>"

definition unsaved :: analyser where
  "unsaved = snd (gemini_fetch_tweets unwritable_env new_analyser ''alice'' False)"

text \<open>
  A console that rejects three texts: the message of the request exception, which
  quotes the URL with its closing tag; a response body with a closing tag; and the
  message of \<open>MarkupError\<close> itself, which quotes the tag that was rejected.
\<close>

definition quota_body :: string where
  "quota_body = ''quota [/x] exceeded''"

definition example_markup_error :: "console_line \<Rightarrow> exn option" where
  "example_markup_error l =
     (case l of
        Warning_download_media x \<Rightarrow> if x = RequestException then Some MarkupError else None
      | Error_line x \<Rightarrow> if x = MarkupError then Some MarkupError else None
      | Error_status c body \<Rightarrow> if body = quota_body then Some MarkupError else None
      | _ \<Rightarrow> None)"

definition tagged_tweet :: api_tweet where
  "tagged_tweet =
     \<lparr>tweet_id = 7, tweet_text = ''one picture'', created_at = 0, public_metrics = example_metrics,
      attachments = Some [(''media_keys'', [''m1''])]\<rparr>"

definition tagged_response :: tweets_response where
  "tagged_response =
     \<lparr>data = Some [tagged_tweet, tweet9],
      includes_media = Some [\<lparr>media_key = ''m1'', url = Some ''https://img/a[/x].jpg'',
                               preview_image_url = None\<rparr>]\<rparr>"

definition quota_exceeded :: http_response where
  "quota_exceeded = \<lparr>status_code = 429, content = quota_body, response_text = quota_body,
     json_body = None\<rparr>"

definition tagged_env :: env where
  "tagged_env =
     online_env\<lparr>markup_error := example_markup_error,
       get_users_tweets := (\<lambda>i. Inr tagged_response),
       requests_get := (\<lambda>u. Inl RequestException),
       requests_post := (\<lambda>r. Inr quota_exceeded)\<rparr>"

section \<open>Basic facts\<close>

lemmas example_defs =
  offline_env_def new_analyser_def example_isoformat_def example_fromisoformat_def
  example_py_str_def example_image_open_def gemini_snapshot_def openrouter_snapshot_def

lemmas online_defs =
  online_env_def example_response_def example_tweets_def tweet7_def tweet8_def tweet9_def
  example_media_def example_metrics_def
  example_requests_get_def rate_limited_def

lemma say_fields [simp]:
  "tweets (say l s) = tweets s" "username (say l s) = username s"
  "openrouter_key (say l s) = openrouter_key s" "files (say l s) = files s"
  "writes (say l s) = writes s"
  "console (say l s) = console s @ [l]" "net (say l s) = net s"
  by (simp_all add: say_def)

lemma call_fields [simp]:
  "tweets (call c s) = tweets s" "username (call c s) = username s"
  "openrouter_key (call c s) = openrouter_key s" "files (call c s) = files s"
  "writes (call c s) = writes s"
  "console (call c s) = console s" "net (call c s) = net s @ [c]"
  by (simp_all add: call_def)

text \<open>A print changes the console or nothing.\<close>

lemma console_print_fields [simp]:
  "tweets (snd (console_print e l s)) = tweets s"
  "username (snd (console_print e l s)) = username s"
  "openrouter_key (snd (console_print e l s)) = openrouter_key s"
  "files (snd (console_print e l s)) = files s"
  "writes (snd (console_print e l s)) = writes s"
  "net (snd (console_print e l s)) = net s"
  by (simp_all add: console_print_def split: option.split)

lemma console_print_result:
  "fst (console_print e l s) = markup_error e l"
  by (simp add: console_print_def split: option.split)

lemma console_print_accepted:
  "markup_error e l = None \<Longrightarrow> console_print e l s = (None, say l s)"
  by (simp add: console_print_def)

lemma console_print_rejected:
  "markup_error e l = Some x \<Longrightarrow> console_print e l s = (Some x, s)"
  by (simp add: console_print_def)

lemma print_then_fields [simp]:
  "tweets (snd (print_then e l v s)) = tweets s"
  "username (snd (print_then e l v s)) = username s"
  "openrouter_key (snd (print_then e l v s)) = openrouter_key s"
  "files (snd (print_then e l v s)) = files s"
  "writes (snd (print_then e l v s)) = writes s"
  "net (snd (print_then e l v s)) = net s"
  by (simp_all add: print_then_def console_print_def split: option.split)


lemma print_then_accepted:
  "markup_error e l = None \<Longrightarrow> print_then e l v s = (Inr v, say l s)"
  by (simp add: print_then_def console_print_def)

lemma print_then_rejected:
  "markup_error e l = Some x \<Longrightarrow> print_then e l v s = (Inl x, s)"
  by (simp add: print_then_def console_print_def)

lemma write_file_files:
  "files (snd (write_file e p c s)) =
     (case write_result e (writes s) p of
        WriteOk \<Rightarrow> (files s)(p \<mapsto> c)
      | OpenFails x \<Rightarrow> files s
      | WriteFails x \<Rightarrow> (files s)(p \<mapsto> Partial))"
  by (simp add: write_file_def Let_def split: write_outcome.split)

lemma write_file_result:
  "fst (write_file e p c s) =
     (case write_result e (writes s) p of
        WriteOk \<Rightarrow> None
      | OpenFails x \<Rightarrow> Some x
      | WriteFails x \<Rightarrow> Some x)"
  by (simp add: write_file_def Let_def split: write_outcome.split)

lemma write_file_frame [simp]:
  "tweets (snd (write_file e p c s)) = tweets s"
  "username (snd (write_file e p c s)) = username s"
  "net (snd (write_file e p c s)) = net s"
  "console (snd (write_file e p c s)) = console s"
  "openrouter_key (snd (write_file e p c s)) = openrouter_key s"
  "writes (snd (write_file e p c s)) = Suc (writes s)"
  by (simp_all add: write_file_def Let_def split: write_outcome.split)

lemma gemini_save_files:
  "files (snd (gemini_save_tweets_to_cache e s u tw)) =
     (case write_result e (writes s) (cache_file u) of
        WriteOk \<Rightarrow> (files s)(cache_file u \<mapsto>
           JsonText (JObj [(''timestamp'', JStr (isoformat e (now_save e))), (''tweets'', tw)]))
      | OpenFails x \<Rightarrow> files s
      | WriteFails x \<Rightarrow> (files s)(cache_file u \<mapsto> Partial))"
  by (simp add: gemini_save_tweets_to_cache_def write_file_def Let_def split: write_outcome.split)

lemma gemini_save_frame [simp]:
  "tweets (snd (gemini_save_tweets_to_cache e s u tw)) = tweets s"
  "username (snd (gemini_save_tweets_to_cache e s u tw)) = username s"
  "net (snd (gemini_save_tweets_to_cache e s u tw)) = net s"
  by (simp_all add: gemini_save_tweets_to_cache_def write_file_def Let_def split: write_outcome.split)

lemma openrouter_save_files:
  "files (snd (openrouter_save_tweets_to_cache e s u tw)) =
     (case write_result e (writes s) (cache_file u) of
        WriteOk \<Rightarrow> (files s)(cache_file u \<mapsto>
           JsonText (JObj [(''tweets'', tw), (''cached_at'', JStr (isoformat e (now_save e)))]))
      | OpenFails x \<Rightarrow> files s
      | WriteFails x \<Rightarrow> (files s)(cache_file u \<mapsto> Partial))"
  by (simp add: openrouter_save_tweets_to_cache_def write_file_files)

section \<open>The freshness window\<close>

text \<open>The multi-modal script drops a snapshot as soon as it is 24 hours old.\<close>

lemma gemini_load_expired:
  assumes "files s (cache_file u) = Some c"
    and "json_load c = Inr d" and "subscript d ''timestamp'' = Inr ts"
    and "parse_time e ts = Inr (Naive t)" and "timedelta_hours_24 \<le> now_load e - t"
  shows "gemini_load_cached_tweets e s u = (Inr None, s)"
  using assms by (simp add: gemini_load_cached_tweets_def gemini_read_cache_def time_since_def)

lemma gemini_load_rejects_snapshot_aged_24h:
  "gemini_load_cached_tweets (offline_env\<lparr>now_load := 24 * 3600 * 1000000\<rparr>)
     (new_analyser\<lparr>files := [cache_file ''alice'' \<mapsto> gemini_snapshot]\<rparr>) ''alice''
   = (Inr None, new_analyser\<lparr>files := [cache_file ''alice'' \<mapsto> gemini_snapshot]\<rparr>)"
  by (simp add: gemini_load_cached_tweets_def gemini_read_cache_def example_defs json_load_def
      parse_time_def time_since_def timedelta_hours_24_def)

text \<open>
  C2. A snapshot whose timestamp lies 24 hours or more before the current time is not
  served by \<open>load\<close>. The chat-completion script tests \<^verbatim>\<open>now - cache_time > 24h\<close>:
  a snapshot that is exactly 24 hours old is still served, where the multi-modal script
  (lemma \<open>gemini_load_rejects_snapshot_aged_24h\<close>) returns nothing.
\<close>

theorem openrouter_load_serves_snapshot_aged_24h:
  "openrouter_load_cached_tweets (offline_env\<lparr>now_load := 24 * 3600 * 1000000\<rparr>)
     (new_analyser\<lparr>files := [cache_file ''alice'' \<mapsto> openrouter_snapshot]\<rparr>) ''alice''
   = Inr (Some (JList [example_post], Naive 0))"
  by (simp add: openrouter_load_cached_tweets_def example_defs json_load_def parse_time_def
      time_since_def timedelta_hours_24_def)

text \<open>
  A timestamp with a UTC offset cannot be subtracted from the naive current time: both
  loads raise \<^verbatim>\<open>TypeError\<close> in their \<^verbatim>\<open>try\<close> block or body, whatever the age.
\<close>

lemma aware_timestamp_raises:
  assumes "json_load c = Inr d" and "parse_time e ts = Inr (Aware t)"
  shows "subscript d ''timestamp'' = Inr ts \<Longrightarrow> gemini_read_cache e c = Inl TypeError"
    and "files s (cache_file u) = Some c \<Longrightarrow> subscript d ''cached_at'' = Inr ts
         \<Longrightarrow> openrouter_load_cached_tweets e s u = Inl TypeError"
  using assms
  by (simp_all add: gemini_read_cache_def openrouter_load_cached_tweets_def time_since_def)

section \<open>Malformed cache files\<close>

text \<open>
  In the multi-modal script every failure of reading the cache file is caught and turned
  into a warning and the absent result; only the exception of the warning's own print
  can leave \<open>load\<close>.
\<close>

lemma gemini_load_malformed:
  assumes "files s (cache_file u) = Some c" and "gemini_read_cache e c = Inl x"
  shows "gemini_load_cached_tweets e s u = print_then e (Warning_load_cache x) None s"
  using assms by (simp add: gemini_load_cached_tweets_def)

lemma gemini_read_cache_malformed:
  "gemini_read_cache e Partial = Inl JSONDecodeError"
  "map_of kvs ''timestamp'' = None \<Longrightarrow> gemini_read_cache e (JsonText (JObj kvs)) = Inl (KeyError ''timestamp'')"
  "map_of kvs ''timestamp'' = Some (JStr ts) \<Longrightarrow> fromisoformat e ts = None
     \<Longrightarrow> gemini_read_cache e (JsonText (JObj kvs)) = Inl ValueError"
  "map_of kvs ''timestamp'' = Some (JStr ts) \<Longrightarrow> fromisoformat e ts = Some (Naive t)
     \<Longrightarrow> now_load e - t < timedelta_hours_24 \<Longrightarrow> map_of kvs ''tweets'' = None
     \<Longrightarrow> gemini_read_cache e (JsonText (JObj kvs)) = Inl (KeyError ''tweets'')"
  by (simp_all add: gemini_read_cache_def json_load_def parse_time_def time_since_def)

text \<open>
  C3. A malformed cache file makes \<open>load\<close> return the absent result with a warning and
  raise nothing. The chat-completion script has no handler in \<^verbatim>\<open>load_cached_tweets\<close>
  and calls it outside the \<^verbatim>\<open>try\<close> of \<^verbatim>\<open>fetch_tweets\<close>: on a cache file that is
  not JSON the decoder's exception leaves both.
\<close>

theorem openrouter_fetch_raises_on_malformed_cache:
  "openrouter_fetch_tweets offline_env
     (new_analyser\<lparr>files := [cache_file ''alice'' \<mapsto> Partial]\<rparr>) ''alice''
   = (Inl JSONDecodeError, new_analyser\<lparr>files := [cache_file ''alice'' \<mapsto> Partial]\<rparr>)"
  by (simp add: openrouter_fetch_tweets_def openrouter_load_cached_tweets_def json_load_def
      example_defs)

section \<open>Writing the snapshot\<close>

text \<open>
  Counterexample to C4 as stated: each script has a snapshot on disk that it can read,
  the write of the next one fails partway, and the file no longer holds the snapshot.
\<close>

theorem save_failure_destroys_snapshot:
  "files alice_cached (cache_file ''alice'') = Some gemini_snapshot
   \<and> gemini_read_cache offline_env gemini_snapshot = Inr (Some (JList [example_post], Naive 0))
   \<and> files (snd (gemini_save_tweets_to_cache failing_disk_env alice_cached ''alice'' (JList [example_post])))
        (cache_file ''alice'') = Some Partial
   \<and> files alice_openrouter (cache_file ''alice'') = Some openrouter_snapshot
   \<and> openrouter_load_cached_tweets offline_env alice_openrouter ''alice''
        = Inr (Some (JList [example_post], Naive 0))
   \<and> files (snd (openrouter_save_tweets_to_cache failing_disk_env alice_openrouter ''alice'' (JList [example_post])))
        (cache_file ''alice'') = Some Partial"
  by (simp add: gemini_save_files openrouter_save_files alice_cached_def alice_openrouter_def
      failing_disk_env_def openrouter_load_cached_tweets_def
      gemini_read_cache_def json_load_def parse_time_def time_since_def timedelta_hours_24_def
      example_defs)

text \<open>
  C4, amended. \<open>save\<close> writes the snapshot file in place. When the write fails partway,
  the previous snapshot is lost: the file holds a partial text. That text is never read
  back as a snapshot: in the multi-modal script \<open>load\<close> goes to its handler, which
  warns and returns the absent result, and in the chat-completion script \<open>load\<close>
  returns nothing either. The multi-modal \<open>save\<close> only warns; the chat-completion
  \<open>save\<close> lets the exception through.
\<close>

theorem save_overwrites_in_place:
  assumes "write_result e (writes s) (cache_file u) = WriteFails x"
  shows "gemini_save_tweets_to_cache e s u tw
           = console_print e (Warning_save_cache x)
               (s\<lparr>writes := Suc (writes s), files := (files s)(cache_file u \<mapsto> Partial)\<rparr>)
         \<and> gemini_load_cached_tweets e' (snd (gemini_save_tweets_to_cache e s u tw)) u
           = print_then e' (Warning_load_cache JSONDecodeError) None
               (snd (gemini_save_tweets_to_cache e s u tw))
         \<and> openrouter_save_tweets_to_cache e s u tw
           = (Some x, s\<lparr>writes := Suc (writes s), files := (files s)(cache_file u \<mapsto> Partial)\<rparr>)
         \<and> openrouter_load_cached_tweets e' (snd (openrouter_save_tweets_to_cache e s u tw)) u
           = Inl JSONDecodeError"
proof -
  have f: "files (snd (gemini_save_tweets_to_cache e s u tw)) (cache_file u) = Some Partial"
    using assms by (simp add: gemini_save_files)
  have a: "gemini_save_tweets_to_cache e s u tw
           = console_print e (Warning_save_cache x)
               (s\<lparr>writes := Suc (writes s), files := (files s)(cache_file u \<mapsto> Partial)\<rparr>)"
    using assms by (simp add: gemini_save_tweets_to_cache_def write_file_def Let_def)
  have b: "gemini_load_cached_tweets e' (snd (gemini_save_tweets_to_cache e s u tw)) u
           = print_then e' (Warning_load_cache JSONDecodeError) None
               (snd (gemini_save_tweets_to_cache e s u tw))"
    using f by (simp add: gemini_load_cached_tweets_def gemini_read_cache_def json_load_def)
  have c: "openrouter_save_tweets_to_cache e s u tw
           = (Some x, s\<lparr>writes := Suc (writes s), files := (files s)(cache_file u \<mapsto> Partial)\<rparr>)"
    using assms by (simp add: openrouter_save_tweets_to_cache_def write_file_def Let_def)
  have d: "openrouter_load_cached_tweets e' (snd (openrouter_save_tweets_to_cache e s u tw)) u
           = Inl JSONDecodeError"
    using c by (simp add: openrouter_load_cached_tweets_def json_load_def)
  show ?thesis using a b c d by (intro conjI)
qed

theorem save_overwrites_in_place_witness:
  "write_result failing_disk_env (writes alice_cached) (cache_file ''alice'') = WriteFails OSError
   \<and> gemini_save_tweets_to_cache failing_disk_env alice_cached ''alice'' (JList [])
       = (None, say (Warning_save_cache OSError)
           (alice_cached\<lparr>writes := 1, files := (files alice_cached)(cache_file ''alice'' \<mapsto> Partial)\<rparr>))
   \<and> gemini_load_cached_tweets offline_env
        (snd (gemini_save_tweets_to_cache failing_disk_env alice_cached ''alice'' (JList []))) ''alice''
       = (Inr None, say (Warning_load_cache JSONDecodeError)
                  (snd (gemini_save_tweets_to_cache failing_disk_env alice_cached ''alice'' (JList []))))
   \<and> openrouter_save_tweets_to_cache failing_disk_env alice_cached ''alice'' (JList [])
       = (Some OSError, alice_cached\<lparr>writes := 1, files := (files alice_cached)(cache_file ''alice'' \<mapsto> Partial)\<rparr>)
   \<and> openrouter_load_cached_tweets offline_env
        (snd (openrouter_save_tweets_to_cache failing_disk_env alice_cached ''alice'' (JList []))) ''alice''
       = Inl JSONDecodeError"
proof -
  have h: "write_result failing_disk_env (writes alice_cached) (cache_file ''alice'') = WriteFails OSError"
    by (simp add: failing_disk_env_def offline_env_def)
  have w: "writes alice_cached = 0"
    by (simp add: alice_cached_def new_analyser_def)
  have m: "markup_error failing_disk_env l = None" "markup_error offline_env l = None" for l
    by (simp_all add: failing_disk_env_def offline_env_def)
  note t = save_overwrites_in_place [OF h, of "JList []" offline_env]
  note t1 = t [THEN conjunct1]
  note t2 = t [THEN conjunct2, THEN conjunct1]
  note t3 = t [THEN conjunct2, THEN conjunct2, THEN conjunct1]
  note t4 = t [THEN conjunct2, THEN conjunct2, THEN conjunct2]
  have a: "gemini_save_tweets_to_cache failing_disk_env alice_cached ''alice'' (JList [])
       = (None, say (Warning_save_cache OSError)
           (alice_cached\<lparr>writes := 1, files := (files alice_cached)(cache_file ''alice'' \<mapsto> Partial)\<rparr>))"
    using t1 w by (simp add: console_print_accepted m)
  have b: "gemini_load_cached_tweets offline_env
        (snd (gemini_save_tweets_to_cache failing_disk_env alice_cached ''alice'' (JList []))) ''alice''
       = (Inr None, say (Warning_load_cache JSONDecodeError)
                  (snd (gemini_save_tweets_to_cache failing_disk_env alice_cached ''alice'' (JList []))))"
    by (simp only: t2 print_then_accepted m)
  have c: "openrouter_save_tweets_to_cache failing_disk_env alice_cached ''alice'' (JList [])
       = (Some OSError, alice_cached\<lparr>writes := 1, files := (files alice_cached)(cache_file ''alice'' \<mapsto> Partial)\<rparr>)"
    using t3 w by simp
  have d: "openrouter_load_cached_tweets offline_env
        (snd (openrouter_save_tweets_to_cache failing_disk_env alice_cached ''alice'' (JList []))) ''alice''
       = Inl JSONDecodeError"
    by (rule t4)
  show ?thesis using h a b c d by (intro conjI)
qed

section \<open>The fetch loop\<close>

lemma media_file_examples:
  "media_file 7 = ''cache/media/7.jpg''" "media_file 8 = ''cache/media/8.jpg''"
  "media_file 9 = ''cache/media/9.jpg''"
  by (simp_all add: media_file_def media_dir_def cache_dir_def str_int_def str_nat.simps digit_char_def)

lemma key_urls_simps [simp]:
  "key_urls lookup [] = []"
  "lookup key = None \<Longrightarrow> key_urls lookup (key # keys) = key_urls lookup keys"
  "lookup key = Some media \<Longrightarrow> choose_media_url media = None
     \<Longrightarrow> key_urls lookup (key # keys) = key_urls lookup keys"
  "lookup key = Some media \<Longrightarrow> choose_media_url media = Some u
     \<Longrightarrow> key_urls lookup (key # keys) = u # key_urls lookup keys"
  by (simp_all add: key_urls_def)

text \<open>One download: what it returns, what it leaves on disk, and what it does not touch.\<close>

lemma download_media_frame:
  "tweets (snd (download_media e s media_url tid)) = tweets s"
  "username (snd (download_media e s media_url tid)) = username s"
  "writes (snd (download_media e s media_url tid)) = writes s + (if gets_200 e media_url then 1 else 0)"
  by (simp_all add: download_media_def gets_200_def write_file_def Let_def
      split: sum.split write_outcome.split)

lemma download_media_returns:
  assumes "download_media e s media_url tid = (Inr r, s1)"
  shows "r = (if gets_200 e media_url \<and> write_result e (writes s) (media_file tid) = WriteOk
              then Some (media_file tid) else None)"
proof (cases "requests_get e media_url")
  case (Inl x)
  then show ?thesis
    using assms
    by (simp add: download_media_def gets_200_def Let_def print_then_def console_print_def
        split: option.splits)
next
  case (Inr response)
  show ?thesis
  proof (cases "status_code response = 200")
    case False
    then show ?thesis using assms Inr by (auto simp add: download_media_def gets_200_def Let_def)
  next
    case True
    show ?thesis
    proof (cases "write_result e (writes s) (media_file tid)")
      case WriteOk
      then show ?thesis
        using assms Inr True by (auto simp add: download_media_def gets_200_def write_file_def Let_def)
    next
      case (OpenFails x)
      then show ?thesis
        using assms Inr True
        by (auto simp add: download_media_def gets_200_def write_file_def Let_def print_then_def
            console_print_def split: option.splits)
    next
      case (WriteFails x)
      then show ?thesis
        using assms Inr True
        by (auto simp add: download_media_def gets_200_def write_file_def Let_def print_then_def
            console_print_def split: option.splits)
    qed
  qed
qed

lemma download_media_overwrites:
  assumes "download_media e s media_url tid = (Inr (Some p), s1)"
  shows "p = media_file tid
         \<and> (\<exists>response. requests_get e media_url = Inr response
               \<and> files s1 (media_file tid) = Some (Bytes (content response)))"
proof (cases "requests_get e media_url")
  case (Inl x)
  then show ?thesis
    using assms
    by (simp add: download_media_def Let_def print_then_def console_print_def split: option.splits)
next
  case (Inr response)
  show ?thesis
  proof (cases "status_code response = 200")
    case False
    then show ?thesis using assms Inr by (simp add: download_media_def Let_def)
  next
    case True
    show ?thesis
    proof (cases "write_result e (writes s) (media_file tid)")
      case WriteOk
      then show ?thesis
        using assms Inr True by (auto simp add: download_media_def write_file_def Let_def)
    next
      case (OpenFails x)
      then show ?thesis
        using assms Inr True
        by (simp add: download_media_def write_file_def Let_def print_then_def
            console_print_def split: option.splits)
    next
      case (WriteFails x)
      then show ?thesis
        using assms Inr True
        by (simp add: download_media_def write_file_def Let_def print_then_def
            console_print_def split: option.splits)
    qed
  qed
qed

lemma download_media_completes:
  assumes "\<forall>x. markup_error e (Warning_download_media x) = None"
  shows "\<exists>r. fst (download_media e s media_url tid) = Inr r"
  using assms
  by (simp add: download_media_def Let_def print_then_accepted split: sum.split prod.split option.split)

text \<open>The loop over the attachments of one post.\<close>

lemma media_loop_frame:
  "tweets (snd (media_loop e lookup tid keys acc s)) = tweets s
   \<and> username (snd (media_loop e lookup tid keys acc s)) = username s"
proof (induction keys arbitrary: acc s)
  case Nil
  then show ?case by simp
next
  case (Cons key keys)
  show ?case
  proof (cases "lookup key")
    case None
    then show ?thesis using Cons.IH by simp
  next
    case (Some media)
    show ?thesis
    proof (cases "choose_media_url media")
      case None
      then show ?thesis using Some Cons.IH by simp
    next
      case (Some media_url)
      obtain r s1 where d: "download_media e s media_url tid = (r, s1)"
        by (cases "download_media e s media_url tid")
      have f: "tweets s1 = tweets s" "username s1 = username s"
        using download_media_frame(1,2) [of e s media_url tid] d by simp_all
      show ?thesis
      proof (cases r)
        case (Inl x)
        then show ?thesis using \<open>lookup key = Some media\<close> Some d f by simp
      next
        case (Inr v)
        then show ?thesis
          using \<open>lookup key = Some media\<close> Some d f Cons.IH by (cases v) simp_all
      qed
    qed
  qed
qed

lemma media_loop_returns:
  assumes "media_loop e lookup tid keys acc s = (Inr media, s1)"
  shows "media = acc @ replicate (saved_count e (writes s) tid (key_urls lookup keys)) (JStr (media_file tid))
         \<and> writes s1 = writes s + opened_count e (key_urls lookup keys)"
  using assms
proof (induction keys arbitrary: acc s)
  case Nil
  then show ?case by (simp add: opened_count_def)
next
  case (Cons key keys)
  show ?case
  proof (cases "lookup key")
    case None
    then show ?thesis using Cons by simp
  next
    case (Some media')
    show ?thesis
    proof (cases "choose_media_url media'")
      case None
      then show ?thesis using Some Cons by simp
    next
      case (Some media_url)
      note k = \<open>lookup key = Some media'\<close> Some
      obtain r s2 where d: "download_media e s media_url tid = (r, s2)"
        by (cases "download_media e s media_url tid")
      have w: "writes s2 = writes s + (if gets_200 e media_url then 1 else 0)"
        using download_media_frame(3) [of e s media_url tid] d by simp
      show ?thesis
      proof (cases r)
        case (Inl x)
        then show ?thesis using Cons.prems k d by simp
      next
        case (Inr v)
        have v: "v = (if gets_200 e media_url \<and> write_result e (writes s) (media_file tid) = WriteOk
              then Some (media_file tid) else None)"
          using download_media_returns [of e s media_url tid v s2] d Inr by simp
        show ?thesis
        proof (cases v)
          case None
          then have l: "media_loop e lookup tid keys acc s2 = (Inr media, s1)"
            using Cons.prems k d Inr by simp
          show ?thesis
            using Cons.IH [OF l] w v None k
            by (auto simp add: opened_count_def split: if_splits)
        next
          case (Some path)
          then have l: "media_loop e lookup tid keys (acc @ [JStr path]) s2 = (Inr media, s1)"
            using Cons.prems k d Inr by simp
          have p: "path = media_file tid" "gets_200 e media_url"
            "write_result e (writes s) (media_file tid) = WriteOk"
            using v Some by (simp_all split: if_splits)
          show ?thesis
            using Cons.IH [OF l] w p k
            by (simp add: opened_count_def replicate_app_Cons_same)
        qed
      qed
    qed
  qed
qed

lemma media_loop_completes:
  assumes "\<forall>x. markup_error e (Warning_download_media x) = None"
  shows "\<exists>media. fst (media_loop e lookup tid keys acc s) = Inr media"
proof (induction keys arbitrary: acc s)
  case Nil
  then show ?case by simp
next
  case (Cons key keys)
  show ?case
  proof (cases "lookup key")
    case None
    then show ?thesis using Cons.IH by simp
  next
    case (Some media')
    show ?thesis
    proof (cases "choose_media_url media'")
      case None
      then show ?thesis using Some Cons.IH by simp
    next
      case (Some media_url)
      obtain r s2 where d: "download_media e s media_url tid = (r, s2)"
        by (cases "download_media e s media_url tid")
      obtain v where "r = Inr v"
        using download_media_completes [OF assms, of s media_url tid] d by auto
      then show ?thesis
        using \<open>lookup key = Some media'\<close> Some d Cons.IH by (cases v) simp_all
    qed
  qed
qed

text \<open>The loop over the posts.\<close>

lemma gemini_tweet_data_expected:
  "gemini_tweet_data e t (replicate k (JStr (media_file (tweet_id t)))) = expected_post e t k"
  by (simp add: gemini_tweet_data_def expected_post_def)

lemma tweets_loop_username:
  "username (snd (tweets_loop e lookup ts s)) = username s"
proof (induction ts arbitrary: s)
  case Nil
  then show ?case by simp
next
  case (Cons t ts)
  obtain r s1 where m: "media_loop e lookup (tweet_id t) (media_keys_of t) [] s = (r, s1)"
    by (cases "media_loop e lookup (tweet_id t) (media_keys_of t) [] s")
  have "username s1 = username s"
    using media_loop_frame [of e lookup "tweet_id t" "media_keys_of t" "[]" s] m by simp
  then show ?case using m Cons.IH by (cases r) simp_all
qed

lemma tweets_loop_returns:
  assumes "tweets_loop e lookup ts s = (None, s1)" and "tweets s = JList xs"
  shows "tweets s1 = JList (xs @ expected_posts e lookup (writes s) ts)"
  using assms
proof (induction ts arbitrary: s xs)
  case Nil
  then show ?case by simp
next
  case (Cons t ts)
  obtain r s2 where m: "media_loop e lookup (tweet_id t) (media_keys_of t) [] s = (r, s2)"
    by (cases "media_loop e lookup (tweet_id t) (media_keys_of t) [] s")
  show ?case
  proof (cases r)
    case (Inl x)
    then show ?thesis using Cons.prems m by simp
  next
    case (Inr media)
    let ?k = "saved_count e (writes s) (tweet_id t) (media_urls lookup t)"
    have media: "media = replicate ?k (JStr (media_file (tweet_id t)))"
      and w: "writes s2 = writes s + opened_count e (media_urls lookup t)"
      using media_loop_returns [of e lookup "tweet_id t" "media_keys_of t" "[]" s media s2] m Inr
      by (simp_all add: media_urls_def)
    have t2: "tweets s2 = JList xs"
      using media_loop_frame [of e lookup "tweet_id t" "media_keys_of t" "[]" s] m Cons.prems(2)
      by simp
    let ?s3 = "s2\<lparr>tweets := list_append (tweets s2) (gemini_tweet_data e t media)\<rparr>"
    have l: "tweets_loop e lookup ts ?s3 = (None, s1)"
      using Cons.prems(1) m Inr by simp
    have t3: "tweets ?s3 = JList (xs @ [expected_post e t ?k])"
      using t2 media by (simp add: gemini_tweet_data_expected)
    have "writes ?s3 = writes s + opened_count e (media_urls lookup t)"
      using w by simp
    then show ?thesis
      using Cons.IH [OF l t3] by simp
  qed
qed

lemma tweets_loop_completes:
  assumes "\<forall>x. markup_error e (Warning_download_media x) = None"
  shows "fst (tweets_loop e lookup ts s) = None"
proof (induction ts arbitrary: s)
  case Nil
  then show ?case by simp
next
  case (Cons t ts)
  obtain r s2 where m: "media_loop e lookup (tweet_id t) (media_keys_of t) [] s = (r, s2)"
    by (cases "media_loop e lookup (tweet_id t) (media_keys_of t) [] s")
  obtain media where "r = Inr media"
    using media_loop_completes [OF assms, of lookup "tweet_id t" "media_keys_of t" "[]" s] m by auto
  then show ?case using m Cons.IH by simp
qed

text \<open>Whatever ends the loop, the posts appended so far carry only their own path.\<close>

lemma expected_post_own_path: "own_path_only (expected_post e t k)"
  by (simp add: own_path_only_def expected_post_def list_all_iff)

lemma tweets_loop_own_paths:
  assumes "all_own_paths (tweets s)"
  shows "all_own_paths (tweets (snd (tweets_loop e lookup ts s)))"
  using assms
proof (induction ts arbitrary: s)
  case Nil
  then show ?case by simp
next
  case (Cons t ts)
  obtain r s2 where m: "media_loop e lookup (tweet_id t) (media_keys_of t) [] s = (r, s2)"
    by (cases "media_loop e lookup (tweet_id t) (media_keys_of t) [] s")
  have t2: "tweets s2 = tweets s"
    using media_loop_frame [of e lookup "tweet_id t" "media_keys_of t" "[]" s] m by simp
  show ?case
  proof (cases r)
    case (Inl x)
    then show ?thesis using Cons.prems m t2 by simp
  next
    case (Inr media)
    obtain k where media: "media = replicate k (JStr (media_file (tweet_id t)))"
      using media_loop_returns [of e lookup "tweet_id t" "media_keys_of t" "[]" s media s2] m Inr
      by auto
    obtain xs where xs: "tweets s = JList xs" "list_all own_path_only xs"
      using Cons.prems by (auto simp add: all_own_paths_def split: json.splits)
    let ?s3 = "s2\<lparr>tweets := list_append (tweets s2) (gemini_tweet_data e t media)\<rparr>"
    have "all_own_paths (tweets ?s3)"
      using t2 xs media
      by (simp add: all_own_paths_def gemini_tweet_data_expected expected_post_own_path)
    from Cons.IH [OF this] show ?thesis using m Inr by simp
  qed
qed

text \<open>The fetch itself: what a completed network fetch leaves in \<^verbatim>\<open>self.tweets\<close>.\<close>

lemma gemini_load_frame [simp]:
  "tweets (snd (gemini_load_cached_tweets e s u)) = tweets s"
  "username (snd (gemini_load_cached_tweets e s u)) = username s"
  "files (snd (gemini_load_cached_tweets e s u)) = files s"
  "writes (snd (gemini_load_cached_tweets e s u)) = writes s"
  "net (snd (gemini_load_cached_tweets e s u)) = net s"
  by (simp_all add: gemini_load_cached_tweets_def split: option.split sum.split)

lemma gemini_fetch_fresh_loop:
  assumes "get_user e u = Inr (Some uid)" and "get_users_tweets e uid = Inr r"
    and "data r = Some ts" and "ts \<noteq> []"
  shows "gemini_fetch_fresh e s u =
     (case tweets_loop e (media_lookup r) ts
             ((call (Get_users_tweets uid) (call (Get_user u) s))\<lparr>tweets := JList []\<rparr>) of
        (Some x, s3) \<Rightarrow> (Inl x, s3)
      | (None, s3) \<Rightarrow>
         (case gemini_save_tweets_to_cache e s3 u (tweets s3) of
            (Some x, s4) \<Rightarrow> (Inl x, s4)
          | (None, s4) \<Rightarrow> (Inr (Some True), s4)))"
  using assms by (simp add: gemini_fetch_fresh_def Let_def)

lemma gemini_fetch_fresh_no_posts:
  assumes "get_user e u = Inr (Some uid)" and "get_users_tweets e uid = Inr r"
    and "data r = Some []"
  shows "gemini_fetch_fresh e s u = (Inr None, call (Get_users_tweets uid) (call (Get_user u) s))"
  using assms by (simp add: gemini_fetch_fresh_def Let_def)

lemma gemini_fetch_fresh_true:
  assumes "gemini_fetch_fresh e s u = (Inr (Some True), s1)"
    and "get_user e u = Inr (Some uid)" and "get_users_tweets e uid = Inr r"
    and "data r = Some ts"
  shows "tweets s1 = JList (expected_posts e (media_lookup r) (writes s) ts)"
proof (cases "ts = []")
  case True
  then show ?thesis
    using assms gemini_fetch_fresh_no_posts [of e u uid r s] by simp
next
  case False
  let ?s2 = "(call (Get_users_tweets uid) (call (Get_user u) s))\<lparr>tweets := JList []\<rparr>"
  obtain x s3 where l: "tweets_loop e (media_lookup r) ts ?s2 = (x, s3)"
    by (cases "tweets_loop e (media_lookup r) ts ?s2")
  note f = gemini_fetch_fresh_loop [OF assms(2,3,4) False, of s]
  show ?thesis
  proof (cases x)
    case (Some y)
    then show ?thesis using assms(1) f l by simp
  next
    case None
    have t3: "tweets s3 = JList ([] @ expected_posts e (media_lookup r) (writes ?s2) ts)"
      using tweets_loop_returns [of e "media_lookup r" ts ?s2 s3 "[]"] l None by simp
    obtain y s4 where sv: "gemini_save_tweets_to_cache e s3 u (tweets s3) = (y, s4)"
      by (cases "gemini_save_tweets_to_cache e s3 u (tweets s3)")
    have "tweets s4 = tweets s3"
      using gemini_save_frame(1) [of e s3 u "tweets s3"] sv by simp
    moreover have "s1 = s4"
      using assms(1) f l None sv by (cases y) simp_all
    ultimately show ?thesis using t3 by simp
  qed
qed

lemma gemini_fetch_network_true:
  assumes "gemini_fetch_network e s u = (Inr True, s1)"
  shows "gemini_fetch_fresh e s u = (Inr (Some True), s1)"
proof -
  obtain r s2 where f: "gemini_fetch_fresh e s u = (r, s2)"
    by (cases "gemini_fetch_fresh e s u")
  show ?thesis
  proof (cases r)
    case (Inl x)
    then show ?thesis
      using assms f
      by (simp add: gemini_fetch_network_def print_then_def console_print_def split: option.splits)
  next
    case (Inr b)
    then show ?thesis
      using assms f by (cases b) (simp_all add: gemini_fetch_network_def)
  qed
qed

lemma gemini_fetch_tweets_from_network:
  assumes "gemini_fetch_tweets e s u force_refresh = (r, s1)" and "net s1 \<noteq> net s"
  shows "\<exists>s0. gemini_fetch_network e s0 u = (r, s1) \<and> writes s0 = writes s \<and> files s0 = files s"
proof (cases force_refresh)
  case True
  then show ?thesis
    using assms(1) by (auto simp add: gemini_fetch_tweets_def Let_def)
next
  case False
  let ?s0 = "s\<lparr>username := Some u\<rparr>"
  obtain l s2 where ld: "gemini_load_cached_tweets e ?s0 u = (l, s2)"
    by (cases "gemini_load_cached_tweets e ?s0 u")
  have fr: "writes s2 = writes s" "net s2 = net s" "files s2 = files s"
    using gemini_load_frame(3,4,5) [of e ?s0 u] ld by simp_all
  show ?thesis
  proof (cases l)
    case (Inl x)
    then show ?thesis using assms False ld fr by (simp add: gemini_fetch_tweets_def Let_def)
  next
    case (Inr hit)
    show ?thesis
    proof (cases hit)
      case None
      then show ?thesis
        using assms(1) False ld Inr fr by (auto simp add: gemini_fetch_tweets_def Let_def)
    next
      case (Some p)
      obtain cached cache_time where p: "p = (cached, cache_time)" by (cases p)
      show ?thesis
      proof (cases "truthy cached")
        case True
        then show ?thesis
          using assms False ld Inr Some p fr by (auto simp add: gemini_fetch_tweets_def Let_def)
      next
        case nt: False
        then show ?thesis
          using assms(1) False ld Inr Some p fr by (auto simp add: gemini_fetch_tweets_def Let_def)
      qed
    qed
  qed
qed

lemma gemini_fetch_network_own_paths:
  assumes "all_own_paths (tweets s)"
  shows "all_own_paths (tweets (snd (gemini_fetch_network e s u)))"
proof -
  have fresh: "all_own_paths (tweets (snd (gemini_fetch_fresh e s u)))"
  proof (cases "get_user e u")
    case (Inl x)
    then show ?thesis using assms by (simp add: gemini_fetch_fresh_def Let_def)
  next
    case (Inr found)
    show ?thesis
    proof (cases found)
      case None
      then show ?thesis using assms Inr by (simp add: gemini_fetch_fresh_def Let_def)
    next
      case (Some uid)
      show ?thesis
      proof (cases "get_users_tweets e uid")
        case (Inl x)
        then show ?thesis using assms Inr Some by (simp add: gemini_fetch_fresh_def Let_def)
      next
        case r: (Inr r)
        show ?thesis
        proof (cases "data r")
          case None
          then show ?thesis using assms Inr Some r by (simp add: gemini_fetch_fresh_def Let_def)
        next
          case ts: (Some ts)
          show ?thesis
          proof (cases "ts = []")
            case True
            then show ?thesis
              using assms Inr Some r ts by (simp add: gemini_fetch_fresh_def Let_def)
          next
            case False
            let ?s2 = "(call (Get_users_tweets uid) (call (Get_user u) s))\<lparr>tweets := JList []\<rparr>"
            obtain x s3 where l: "tweets_loop e (media_lookup r) ts ?s2 = (x, s3)"
              by (cases "tweets_loop e (media_lookup r) ts ?s2")
            have "all_own_paths (tweets ?s2)" by (simp add: all_own_paths_def)
            from tweets_loop_own_paths [OF this, of e "media_lookup r" ts]
            have t3: "all_own_paths (tweets s3)" using l by simp
            note f = gemini_fetch_fresh_loop [of e u uid r ts s]
            show ?thesis
            proof (cases x)
              case (Some y)
              then show ?thesis using f Inr \<open>found = Some uid\<close> r ts False l t3 by simp
            next
              case None
              obtain y s4 where sv: "gemini_save_tweets_to_cache e s3 u (tweets s3) = (y, s4)"
                by (cases "gemini_save_tweets_to_cache e s3 u (tweets s3)")
              have "tweets s4 = tweets s3"
                using gemini_save_frame(1) [of e s3 u "tweets s3"] sv by simp
              then show ?thesis
                using f Inr \<open>found = Some uid\<close> r ts False l t3 None sv by (cases y) simp_all
            qed
          qed
        qed
      qed
    qed
  qed
  obtain r s2 where f: "gemini_fetch_fresh e s u = (r, s2)"
    by (cases "gemini_fetch_fresh e s u")
  show ?thesis
  proof (cases r)
    case (Inl x)
    then show ?thesis using fresh f by (simp add: gemini_fetch_network_def)
  next
    case (Inr b)
    then show ?thesis using fresh f by (cases b) (simp_all add: gemini_fetch_network_def)
  qed
qed

lemmas fetch_defs =
  gemini_fetch_tweets_def gemini_fetch_network_def gemini_fetch_fresh_def
  gemini_load_cached_tweets_def gemini_save_tweets_to_cache_def download_media_def write_file_def
  media_keys_of_def media_lookup_def choose_media_url_def gemini_tweet_data_def
  print_then_def console_print_def call_def say_def Let_def

lemma example_api:
  "get_user online_env ''alice'' = Inr (Some 42)"
  "get_users_tweets online_env 42 = Inr example_response"
  "data example_response = Some [tweet7, tweet8, tweet9]"
  by (simp_all add: online_env_def offline_env_def example_response_def example_tweets_def)

lemma example_expected_posts:
  "expected_posts online_env (media_lookup example_response) 0 [tweet7, tweet8, tweet9] =
     [JObj [(''id'', JInt 7), (''text'', JStr ''three pictures''),
            (''created_at'', JStr ''1970-01-01T00:00:00''), (''metrics'', example_metrics),
            (''media'', JList [JStr ''cache/media/7.jpg'', JStr ''cache/media/7.jpg''])],
      JObj [(''id'', JInt 8), (''text'', JStr ''one picture''),
            (''created_at'', JStr ''1970-01-01T00:00:00''), (''metrics'', example_metrics),
            (''media'', JList [])],
      JObj [(''id'', JInt 9), (''text'', JStr ''no picture''),
            (''created_at'', JStr ''1970-01-01T00:00:00''), (''metrics'', example_metrics),
            (''media'', JList [])]]"
  by (simp add: expected_post_def media_urls_def key_urls_def media_keys_of_def media_lookup_def
      choose_media_url_def gets_200_def opened_count_def online_env_def offline_env_def
      example_response_def example_media_def example_requests_get_def example_isoformat_def
      tweet7_def tweet8_def tweet9_def media_file_examples numeral_2_eq_2)

lemma example_download:
  "download_media online_env new_analyser ''https://img/1'' 7 =
     (Inr (Some ''cache/media/7.jpg''),
      new_analyser\<lparr>files := [''cache/media/7.jpg'' \<mapsto> Bytes ''AAA''], writes := 1,
        net := [Requests_get ''https://img/1'']\<rparr>)"
  by (simp add: download_media_def write_file_def call_def Let_def online_env_def offline_env_def
      example_requests_get_def new_analyser_def media_file_examples)

lemma example_fetch_result:
  "fst (gemini_fetch_tweets online_env new_analyser ''alice'' False) = Inr True"
  "net (snd (gemini_fetch_tweets online_env new_analyser ''alice'' False)) =
     [Get_user ''alice'', Get_users_tweets 42, Requests_get ''https://img/1'',
      Requests_get ''https://img/2'', Requests_get ''https://img/3'', Requests_get ''https://img/4'']"
  "files (snd (gemini_fetch_tweets online_env new_analyser ''alice'' False)) ''cache/media/7.jpg''
     = Some (Bytes ''CCC'')"
  by (simp_all add: fetch_defs online_defs example_defs media_file_examples cache_file_def
      cache_dir_def)


section \<open>The path of a media file\<close>

text \<open>
  C10. In the multi-modal script the path of a downloaded media item is made from the
  post id alone, \<^verbatim>\<open>cache/media/<id>.jpg\<close>. A download that returns a path returns that
  path, after a response with status 200 whose content is then what the file holds,
  whatever it held before. After a fetch that went to the network and reported success,
  the collection is, post by post, the data of the post with a media list holding that
  one path once per download that was written. And whatever ends a network fetch, every
  post it leaves in the collection has a media list that holds nothing but its own path.
\<close>

theorem media_path_is_the_post_id:
  "media_file tid = ''cache/media/'' @ str_int tid @ ''.jpg''
   \<and> (download_media e s media_url tid = (Inr (Some p), s1) \<longrightarrow>
        p = media_file tid
        \<and> (case requests_get e media_url of
              Inl x \<Rightarrow> False
            | Inr response \<Rightarrow>
                status_code response = 200
                \<and> files s1 (media_file tid) = Some (Bytes (content response))))
   \<and> (get_user e u = Inr (Some uid) \<and> get_users_tweets e uid = Inr r \<and> data r = Some ts
       \<and> gemini_fetch_tweets e s u force_refresh = (Inr True, s2) \<and> net s2 \<noteq> net s
       \<longrightarrow> tweets s2 = JList (expected_posts e (media_lookup r) (writes s) ts))
   \<and> (all_own_paths (tweets s) \<longrightarrow> all_own_paths (tweets (snd (gemini_fetch_network e s u))))"
proof -
  have a: "media_file tid = ''cache/media/'' @ str_int tid @ ''.jpg''"
    by (simp add: media_file_def media_dir_def cache_dir_def)
  have b: "p = media_file tid
        \<and> (case requests_get e media_url of
              Inl x \<Rightarrow> False
            | Inr response \<Rightarrow>
                status_code response = 200
                \<and> files s1 (media_file tid) = Some (Bytes (content response)))"
    if d: "download_media e s media_url tid = (Inr (Some p), s1)"
  proof -
    have "gets_200 e media_url"
      using download_media_returns [OF d] by (simp split: if_splits)
    then show ?thesis
      using download_media_overwrites [OF d] by (auto simp add: gets_200_def split: sum.splits)
  qed
  have c: "tweets s2 = JList (expected_posts e (media_lookup r) (writes s) ts)"
    if api: "get_user e u = Inr (Some uid)" "get_users_tweets e uid = Inr r" "data r = Some ts"
      and f: "gemini_fetch_tweets e s u force_refresh = (Inr True, s2)" and n: "net s2 \<noteq> net s"
  proof -
    obtain s0 where s0: "gemini_fetch_network e s0 u = (Inr True, s2)" "writes s0 = writes s"
      using gemini_fetch_tweets_from_network [OF f n] by blast
    show ?thesis
      using gemini_fetch_fresh_true [OF gemini_fetch_network_true [OF s0(1)] api] s0(2) by simp
  qed
  show ?thesis
    using a b c gemini_fetch_network_own_paths [of s e u] by blast
qed

theorem media_path_is_the_post_id_witness:
  "media_file 7 = ''cache/media/7.jpg''
   \<and> download_media online_env new_analyser ''https://img/1'' 7 =
       (Inr (Some ''cache/media/7.jpg''),
        new_analyser\<lparr>files := [''cache/media/7.jpg'' \<mapsto> Bytes ''AAA''], writes := 1,
          net := [Requests_get ''https://img/1'']\<rparr>)
   \<and> requests_get online_env ''https://img/1''
       = Inr \<lparr>status_code = 200, content = ''AAA'', response_text = ''AAA'', json_body = None\<rparr>
   \<and> get_user online_env ''alice'' = Inr (Some 42)
   \<and> get_users_tweets online_env 42 = Inr example_response
   \<and> data example_response = Some [tweet7, tweet8, tweet9]
   \<and> gemini_fetch_tweets online_env new_analyser ''alice'' False = (Inr True, gemini_fetched)
   \<and> net gemini_fetched \<noteq> net new_analyser
   \<and> tweets gemini_fetched =
       JList [JObj [(''id'', JInt 7), (''text'', JStr ''three pictures''),
                    (''created_at'', JStr ''1970-01-01T00:00:00''), (''metrics'', example_metrics),
                    (''media'', JList [JStr ''cache/media/7.jpg'', JStr ''cache/media/7.jpg''])],
              JObj [(''id'', JInt 8), (''text'', JStr ''one picture''),
                    (''created_at'', JStr ''1970-01-01T00:00:00''), (''metrics'', example_metrics),
                    (''media'', JList [])],
              JObj [(''id'', JInt 9), (''text'', JStr ''no picture''),
                    (''created_at'', JStr ''1970-01-01T00:00:00''), (''metrics'', example_metrics),
                    (''media'', JList [])]]
   \<and> files gemini_fetched ''cache/media/7.jpg'' = Some (Bytes ''CCC'')
   \<and> all_own_paths (tweets new_analyser)
   \<and> all_own_paths (tweets (snd (gemini_fetch_network online_env new_analyser ''alice'')))"
proof -
  let ?s1 = "new_analyser\<lparr>files := [''cache/media/7.jpg'' \<mapsto> Bytes ''AAA''], writes := 1,
          net := [Requests_get ''https://img/1'']\<rparr>"
  note t = media_path_is_the_post_id [of 7 online_env new_analyser "''https://img/1''"
      "''cache/media/7.jpg''" ?s1 "''alice''" 42 example_response "[tweet7, tweet8, tweet9]"
      False gemini_fetched]
  have f: "gemini_fetch_tweets online_env new_analyser ''alice'' False = (Inr True, gemini_fetched)"
    using example_fetch_result(1) by (simp add: gemini_fetched_def prod_eq_iff)
  have n: "net gemini_fetched \<noteq> net new_analyser"
    using example_fetch_result(2) by (simp add: gemini_fetched_def new_analyser_def)
  have w: "writes new_analyser = 0" "all_own_paths (tweets new_analyser)"
    by (simp_all add: new_analyser_def all_own_paths_def)
  have g: "requests_get online_env ''https://img/1''
       = Inr \<lparr>status_code = 200, content = ''AAA'', response_text = ''AAA'', json_body = None\<rparr>"
    by (simp add: online_env_def offline_env_def example_requests_get_def)
  have t1: "media_file 7 = ''cache/media/7.jpg''"
    using t [THEN conjunct1] by (simp add: str_int_def str_nat.simps digit_char_def)
  have t3: "tweets gemini_fetched =
      JList (expected_posts online_env (media_lookup example_response) 0 [tweet7, tweet8, tweet9])"
    using t [THEN conjunct2, THEN conjunct2, THEN conjunct1] example_api f n w(1) by simp
  have t4: "all_own_paths (tweets (snd (gemini_fetch_network online_env new_analyser ''alice'')))"
    using t [THEN conjunct2, THEN conjunct2, THEN conjunct2] w(2) by simp
  have c: "files gemini_fetched ''cache/media/7.jpg'' = Some (Bytes ''CCC'')"
    using example_fetch_result(3) by (simp add: gemini_fetched_def)
  show ?thesis
    using t1 t3 t4 example_download g example_api f n w(2) c
    by (simp only: example_expected_posts) simp
qed

section \<open>Media downloads during a fetch\<close>

text \<open>
  When the console prints the warnings of a failed download and of a failed save, a
  network fetch that got posts from the API keeps every one of them and reports success.
\<close>

lemma fetch_keeps_posts_when_warnings_print:
  assumes "get_user e u = Inr (Some uid)" and "get_users_tweets e uid = Inr r"
    and "data r = Some ts" and "ts \<noteq> []"
    and "\<forall>x. markup_error e (Warning_download_media x) = None"
    and "\<forall>x. markup_error e (Warning_save_cache x) = None"
  shows "fst (gemini_fetch_network e s u) = Inr True
         \<and> tweets (snd (gemini_fetch_network e s u))
             = JList (expected_posts e (media_lookup r) (writes s) ts)"
proof -
  let ?s2 = "(call (Get_users_tweets uid) (call (Get_user u) s))\<lparr>tweets := JList []\<rparr>"
  obtain x s3 where l: "tweets_loop e (media_lookup r) ts ?s2 = (x, s3)"
    by (cases "tweets_loop e (media_lookup r) ts ?s2")
  have x: "x = None"
    using tweets_loop_completes [OF assms(5), of "media_lookup r" ts ?s2] l by simp
  obtain y s4 where sv: "gemini_save_tweets_to_cache e s3 u (tweets s3) = (y, s4)"
    by (cases "gemini_save_tweets_to_cache e s3 u (tweets s3)")
  have "fst (gemini_save_tweets_to_cache e s3 u (tweets s3)) = None"
    using assms(6)
    by (simp add: gemini_save_tweets_to_cache_def write_file_def Let_def console_print_def
        split: write_outcome.split)
  then have y: "y = None" using sv by simp
  have f: "gemini_fetch_fresh e s u = (Inr (Some True), s4)"
    using gemini_fetch_fresh_loop [OF assms(1-4), of s] l x sv y by simp
  have "gemini_fetch_network e s u = (Inr True, s4)"
    using f by (simp add: gemini_fetch_network_def)
  then show ?thesis
    using gemini_fetch_fresh_true [OF f assms(1-3)] by simp
qed

lemma expected_posts_length: "length (expected_posts e lookup n ts) = length ts"
  by (induction ts arbitrary: n) simp_all


section \<open>The chat-completion backend\<close>

text \<open>
  With posts loaded, every failure of the request ends in a print: the line with the
  status code and the response body for a status other than 200, the line with the
  exception for a network error or a malformed response. \<^verbatim>\<open>analyse_with_openrouter\<close>
  returns \<^verbatim>\<open>None\<close> on every path, so that line is all there is of a failure result.
\<close>

lemma chat_backend_failure_prints:
  assumes "truthy (tweets s)"
  shows "(\<forall>r. requests_post e (openrouter_build e s question mdl) = Inr r \<and> status_code r \<noteq> 200
            \<longrightarrow> analyse_with_openrouter e s question mdl
                = (case console_print e (Error_status (status_code r) (response_text r))
                          (call (Requests_post (openrouter_build e s question mdl)) s) of
                     (None, s1) \<Rightarrow> (None, s1)
                   | (Some x, s1) \<Rightarrow> console_print e (Error_line x) s1))
         \<and> (\<forall>x. requests_post e (openrouter_build e s question mdl) = Inl x
            \<longrightarrow> analyse_with_openrouter e s question mdl
                = console_print e (Error_line x)
                    (call (Requests_post (openrouter_build e s question mdl)) s))
         \<and> (\<forall>r x. requests_post e (openrouter_build e s question mdl) = Inr r \<and> status_code r = 200
               \<and> response_analysis r = Inl x
            \<longrightarrow> analyse_with_openrouter e s question mdl
                = console_print e (Error_line x)
                    (call (Requests_post (openrouter_build e s question mdl)) s))"
  using assms
  by (auto simp add: analyse_with_openrouter_def openrouter_send_def Let_def console_print_def
      split: option.splits)

text \<open>
  When the console prints those lines, nothing is raised and the line is on the
  console, with no analysis panel.
\<close>

lemma chat_backend_failure_is_reported_when_printed:
  assumes "truthy (tweets s)" and "\<forall>l. markup_error e l = None"
  shows "(\<forall>r. requests_post e (openrouter_build e s question mdl) = Inr r \<and> status_code r \<noteq> 200
            \<longrightarrow> analyse_with_openrouter e s question mdl
                = (None, say (Error_status (status_code r) (response_text r))
                    (call (Requests_post (openrouter_build e s question mdl)) s)))
         \<and> (\<forall>x. requests_post e (openrouter_build e s question mdl) = Inl x
            \<longrightarrow> analyse_with_openrouter e s question mdl
                = (None, say (Error_line x) (call (Requests_post (openrouter_build e s question mdl)) s)))
         \<and> (\<forall>r x. requests_post e (openrouter_build e s question mdl) = Inr r \<and> status_code r = 200
               \<and> response_analysis r = Inl x
            \<longrightarrow> analyse_with_openrouter e s question mdl
                = (None, say (Error_line x) (call (Requests_post (openrouter_build e s question mdl)) s)))"
  using assms
  by (simp add: analyse_with_openrouter_def openrouter_send_def Let_def console_print_def)

lemma rate_limited_is_reported:
  "fst (analyse_with_openrouter online_env alice_openrouter ''What do they post?'' sonnet) = None"
  "console (snd (analyse_with_openrouter online_env alice_openrouter ''What do they post?'' sonnet))
     = [Error_status 429 ''rate limited'']"
  by (simp_all add: analyse_with_openrouter_def openrouter_send_def Let_def console_print_def
      call_def say_def online_env_def offline_env_def rate_limited_def alice_openrouter_def
      new_analyser_def)

lemma network_error_is_reported:
  "fst (analyse_with_openrouter offline_env alice_openrouter ''What do they post?'' sonnet) = None"
  "console (snd (analyse_with_openrouter offline_env alice_openrouter ''What do they post?'' sonnet))
     = [Error_line RequestException]"
  by (simp_all add: analyse_with_openrouter_def openrouter_send_def Let_def console_print_def
      call_def say_def offline_env_def alice_openrouter_def new_analyser_def)

lemma malformed_response_is_reported:
  "response_analysis empty_choices = Inl IndexError"
  "fst (analyse_with_openrouter (online_env\<lparr>requests_post := (\<lambda>r. Inr empty_choices)\<rparr>)
         alice_openrouter ''What do they post?'' sonnet) = None"
  "console (snd (analyse_with_openrouter (online_env\<lparr>requests_post := (\<lambda>r. Inr empty_choices)\<rparr>)
         alice_openrouter ''What do they post?'' sonnet))
     = [Error_line IndexError]"
  by (simp_all add: analyse_with_openrouter_def openrouter_send_def Let_def console_print_def
      call_def say_def online_env_def offline_env_def empty_choices_def response_analysis_def
      alice_openrouter_def new_analyser_def)

text \<open>
  C8. A response of the chat-completion endpoint whose status is not 200 must end in a
  failure that carries the status code and the body, and no exception may leave the
  backend. The endpoint answers 429 with the body \<^verbatim>\<open>quota [/x] exceeded\<close>. The line
  with the status and the body is printed as console markup inside the \<^verbatim>\<open>try\<close> block:
  the console raises \<^verbatim>\<open>MarkupError\<close> on the closing tag, the handler prints the message
  of that exception, which quotes the tag, and the console raises again. The exception
  leaves \<^verbatim>\<open>analyse_with_openrouter\<close> and nothing has been printed: neither the status
  nor the body.
\<close>

theorem chat_backend_failure_escapes:
  "truthy (tweets alice_openrouter)
   \<and> requests_post tagged_env (openrouter_build tagged_env alice_openrouter ''What do they post?'' sonnet)
       = Inr quota_exceeded
   \<and> status_code quota_exceeded = 429
   \<and> response_text quota_exceeded = ''quota [/x] exceeded''
   \<and> fst (analyse_with_openrouter tagged_env alice_openrouter ''What do they post?'' sonnet)
       = Some MarkupError
   \<and> console (snd (analyse_with_openrouter tagged_env alice_openrouter ''What do they post?'' sonnet))
       = []
   \<and> net (snd (analyse_with_openrouter tagged_env alice_openrouter ''What do they post?'' sonnet))
       = [Requests_post (openrouter_build tagged_env alice_openrouter ''What do they post?'' sonnet)]"
  by (simp add: analyse_with_openrouter_def openrouter_send_def Let_def console_print_def
      call_def say_def tagged_env_def online_env_def offline_env_def quota_exceeded_def
      quota_body_def example_markup_error_def alice_openrouter_def new_analyser_def)

section \<open>Failure of the social API\<close>














section \<open>Asking a question\<close>

lemma load_image_frame:
  "net (snd (load_image e s p)) = net s" "files (snd (load_image e s p)) = files s"
  by (simp_all add: load_image_def split: json.split option.split)

lemma images_loop_frame:
  "net (snd (images_loop e ps images s)) = net s \<and> files (snd (images_loop e ps images s)) = files s"
proof (induction ps arbitrary: images s)
  case Nil
  then show ?case by simp
next
  case (Cons p ps)
  obtain r s1 where l: "load_image e s p = (r, s1)" by (cases "load_image e s p")
  have f: "net s1 = net s" "files s1 = files s"
    using load_image_frame [of e s p] l by simp_all
  show ?case
  proof (cases r)
    case (Inl x)
    then show ?thesis using l f by simp
  next
    case (Inr img)
    then show ?thesis using l f Cons.IH by (cases img) simp_all
  qed
qed

lemma prompt_loop_frame:
  "net (snd (prompt_loop e ts prompt images s)) = net s
   \<and> files (snd (prompt_loop e ts prompt images s)) = files s"
proof (induction ts arbitrary: prompt images s)
  case Nil
  then show ?case by simp
next
  case (Cons t ts)
  show ?case
  proof (cases "tweet_lines e t")
    case (Inl x)
    then show ?thesis by simp
  next
    case (Inr ls)
    show ?thesis
    proof (cases "subscript t ''media''")
      case (Inl x)
      then show ?thesis using Inr by simp
    next
      case m: (Inr m)
      show ?thesis
      proof (cases "truthy m")
        case False
        then show ?thesis using Inr m Cons.IH by simp
      next
        case True
        show ?thesis
        proof (cases "py_iter m")
          case (Inl x)
          then show ?thesis using Inr m True by simp
        next
          case ps: (Inr ps)
          obtain r s1 where i: "images_loop e ps images s = (r, s1)"
            by (cases "images_loop e ps images s")
          have "net s1 = net s" "files s1 = files s"
            using images_loop_frame [of e ps images s] i by simp_all
          then show ?thesis using Inr m True ps i Cons.IH by (cases r) simp_all
        qed
      qed
    qed
  qed
qed

lemma gemini_build_frame:
  "net (snd (gemini_build e s q)) = net s" "files (snd (gemini_build e s q)) = files s"
proof -
  have "net (snd (gemini_build e s q)) = net s \<and> files (snd (gemini_build e s q)) = files s"
  proof (cases "py_iter (tweets s)")
    case (Inl x)
    then show ?thesis by (simp add: gemini_build_def)
  next
    case (Inr ts)
    obtain r s1 where p: "prompt_loop e ts (gemini_prompt_head (username s) q) [] s = (r, s1)"
      by (cases "prompt_loop e ts (gemini_prompt_head (username s) q) [] s")
    have "net s1 = net s" "files s1 = files s"
      using prompt_loop_frame [of e ts "gemini_prompt_head (username s) q" "[]" s] p by simp_all
    then show ?thesis using Inr p by (cases r) (auto simp add: gemini_build_def)
  qed
  then show "net (snd (gemini_build e s q)) = net s" "files (snd (gemini_build e s q)) = files s"
    by simp_all
qed

lemma gemini_send_net:
  "net (snd (gemini_send e s payload)) = net s @ [Generate_content payload]"
  by (simp add: gemini_send_def Let_def split: sum.split)

lemma openrouter_send_net:
  "net (snd (openrouter_send e s request)) = net s @ [Requests_post request]"
  by (simp add: openrouter_send_def Let_def split: sum.split)

text \<open>
  Counterexample to C7 as stated: with an empty post collection no request is built and
  the backend is not called, although it would answer.
\<close>

theorem empty_posts_reach_no_backend:
  "analyse_with_gemini online_env new_analyser ''What do they post?''
     = (None, say No_tweets_loaded new_analyser)
   \<and> analyse_with_openrouter online_env new_analyser ''What do they post?'' ''anthropic/claude-3-sonnet''
     = (None, say No_tweets_loaded new_analyser)
   \<and> tweets new_analyser = JList []
   \<and> net (say No_tweets_loaded new_analyser) = []"
  by (simp add: analyse_with_gemini_def analyse_with_openrouter_def new_analyser_def)

text \<open>
  C7, amended. When the post collection is empty, both scripts print that no tweets are
  loaded and return: no request is built and the backend is not invoked. The backend is
  invoked, exactly once and on the request that was built, only for a non-empty
  collection (in the multi-modal script, when building the prompt raises nothing).
\<close>

theorem analyse_needs_posts:
  "(\<not> truthy (tweets s) \<longrightarrow>
      analyse_with_gemini e s question = (None, say No_tweets_loaded s)
      \<and> analyse_with_openrouter e s question mdl = (None, say No_tweets_loaded s))
   \<and> net (snd (analyse_with_gemini e s question)) =
       (if truthy (tweets s)
        then (case fst (gemini_build e s question) of
                Inl x \<Rightarrow> net s
              | Inr payload \<Rightarrow> net s @ [Generate_content payload])
        else net s)
   \<and> net (snd (analyse_with_openrouter e s question mdl)) =
       (if truthy (tweets s) then net s @ [Requests_post (openrouter_build e s question mdl)]
        else net s)"
proof -
  have a: "net (snd (analyse_with_gemini e s question)) =
       (case fst (gemini_build e s question) of
                Inl x \<Rightarrow> net s
              | Inr payload \<Rightarrow> net s @ [Generate_content payload])" if "truthy (tweets s)"
  proof -
    obtain r s1 where b: "gemini_build e s question = (r, s1)"
      by (cases "gemini_build e s question")
    have n: "net s1 = net s" using gemini_build_frame(1) [of e s question] b by simp
    show ?thesis
    proof (cases r)
      case (Inl x)
      then show ?thesis using that b n by (simp add: analyse_with_gemini_def)
    next
      case (Inr payload)
      obtain y s2 where g: "gemini_send e s1 payload = (y, s2)"
        by (cases "gemini_send e s1 payload")
      have "net s2 = net s @ [Generate_content payload]"
        using gemini_send_net [of e s1 payload] g n by simp
      then show ?thesis
        using that b Inr g by (cases y) (simp_all add: analyse_with_gemini_def)
    qed
  qed
  have b: "net (snd (analyse_with_openrouter e s question mdl))
      = net s @ [Requests_post (openrouter_build e s question mdl)]" if "truthy (tweets s)"
  proof -
    let ?q = "openrouter_build e s question mdl"
    obtain y s2 where g: "openrouter_send e s ?q = (y, s2)"
      by (cases "openrouter_send e s ?q")
    have "net s2 = net s @ [Requests_post ?q]"
      using openrouter_send_net [of e s ?q] g by simp
    then show ?thesis
      using that g by (cases y) (simp_all add: analyse_with_openrouter_def)
  qed
  show ?thesis using a b
    by (simp add: analyse_with_gemini_def analyse_with_openrouter_def)
qed

theorem analyse_needs_posts_witness:
  "\<not> truthy (tweets new_analyser)
   \<and> analyse_with_gemini online_env new_analyser ''What do they post?''
       = (None, say No_tweets_loaded new_analyser)
   \<and> analyse_with_openrouter online_env new_analyser ''What do they post?'' ''anthropic/claude-3-sonnet''
       = (None, say No_tweets_loaded new_analyser)
   \<and> net (snd (analyse_with_gemini online_env new_analyser ''What do they post?'')) = []
   \<and> net (snd (analyse_with_openrouter online_env new_analyser ''What do they post?''
              ''anthropic/claude-3-sonnet'')) = []"
proof -
  have h: "\<not> truthy (tweets new_analyser)" "net new_analyser = []"
    by (simp_all add: new_analyser_def)
  from analyse_needs_posts [of new_analyser online_env "''What do they post?''" "''anthropic/claude-3-sonnet''"] h
  show ?thesis by simp
qed

end
